theory Spec2Isabelle
  imports Complex_Main "HOL-Library.Multiset" "HOL-Library.Char_ord" "HOL-Library.List_Lexorder"
    "HOL-Library.AList" "HOL-Library.Log_Nat"
begin

section \<open>Data model of the sketch/extrude importer\<close>

text \<open>
  The importer (\<^verbatim>\<open>server/sketch_extrude_importer.py\<close>, class
  \<^verbatim>\<open>SketchExtrudeImporter\<close>) replays a JSON construction history against the CAD
  kernel. JSON dictionaries with a fixed schema are records; a dictionary whose shape is
  selected by its \<^verbatim>\<open>"type"\<close> entry is a datatype; a dictionary that the code iterates
  (\<^verbatim>\<open>.items()\<close>) is an association list in insertion order; a key that the code tests with
  \<^verbatim>\<open>in\<close>, or that only some records carry, is an \<open>option\<close>, and reading it where it is
  absent is the \<open>KeyError\<close> of Python. The keys of a dictionary are distinct; a
  statement that depends on it says so. A Python float is the real number it denotes. The
  arithmetic of \<^verbatim>\<open>math.isclose\<close>, which decides the matcher's boundary cases, is rounded
  as IEEE double arithmetic is; the halving of a symmetric distance and the sweep of an
  arc are exact in the model.
\<close>

text \<open>
  Modelled from the spec: the modules \<^verbatim>\<open>name\<close> and \<^verbatim>\<open>deserialize\<close> that the importer
  imports are not among the sources. \<^verbatim>\<open>name.set_custom_uuid\<close> attaches an external
  identifier string to a created curve, and \<^verbatim>\<open>name.get_uuid\<close> reads it back from a curve
  reached through a profile's loops, \<^verbatim>\<open>None\<close> for a curve that was not created by this
  reconstruction: the first is recorded as a call, the results of the second are part of
  a kernel profile. The \<^verbatim>\<open>deserialize\<close> functions turn JSON values (points, matrices,
  operation tags) into kernel values: the records hold these values as they are.
\<close>

type_synonym uuid = string

record point3d =
  coord_x :: real
  coord_y :: real
  coord_z :: real

text \<open>
  \<open>area_properties\<close> is both the kernel's answer to \<^verbatim>\<open>profile.areaProperties(...)\<close>
  and the \<^verbatim>\<open>"properties"\<close> entry of a recorded profile.
\<close>

record area_properties =
  area :: real
  perimeter :: real
  centroid :: point3d

text \<open>
  A kernel profile as the importer reads it: for every loop of \<^verbatim>\<open>profile.profileLoops\<close>
  and every curve of \<^verbatim>\<open>loop.profileCurves\<close>, what \<^verbatim>\<open>name.get_uuid(curve.sketchEntity)\<close>
  returns (\<open>None\<close> when the curve carries no identifier), and the area properties.
\<close>

record kernel_profile =
  profileLoops :: "uuid option list list"
  areaProperties :: area_properties

text \<open>
  A recorded profile: \<open>loops\<close> lists, per loop, the \<^verbatim>\<open>"curve"\<close> entry of each of its
  \<^verbatim>\<open>"profile_curves"\<close>.
\<close>

record profile_data =
  loops :: "uuid list list"
  properties :: area_properties

datatype curve_geometry =
    SketchLine uuid uuid
  | SketchArc uuid uuid real real
  | SketchCircle uuid real
  | UnsupportedCurve string

text \<open>
  \<open>SketchLine start_point end_point\<close>, \<open>SketchArc start_point center_point start_angle
  end_angle\<close>, \<open>SketchCircle center_point radius\<close>; \<open>UnsupportedCurve t\<close> is a curve whose
  \<^verbatim>\<open>"type"\<close> entry \<open>t\<close> is none of the three.
\<close>

record curve_data =
  construction_geom :: bool
  curve_type :: curve_geometry

record sketch_data =
  transform :: "real list"
  points :: "(uuid \<times> point3d) list"
  curves :: "(uuid \<times> curve_data) list option"
  profiles :: "(uuid \<times> profile_data) list"

record extent =
  distance :: real
  taper_angle :: "real option"
  is_full_length :: "bool option"

datatype start_definition =
    ProfilePlaneStartDefinition
  | OffsetStartDefinition real
  | OtherStartDefinition string

record extrude_data =
  extrude_profiles :: "uuid list"
  operation :: string
  extent_type :: string
  extent_one :: extent
  extent_two :: "extent option"
  start_extent :: start_definition

text \<open>
  An entity of \<^verbatim>\<open>data["entities"]\<close>: its \<^verbatim>\<open>"name"\<close>, and the payload its
  \<^verbatim>\<open>"type"\<close> selects; \<open>OtherEntity name t\<close> has a type tag \<open>t\<close> that is neither
  \<^verbatim>\<open>"Sketch"\<close> nor \<^verbatim>\<open>"ExtrudeFeature"\<close>.
\<close>

datatype entity =
    Sketch string sketch_data
  | ExtrudeFeature string extrude_data
  | OtherEntity string string

record timeline_object =
  timeline_entity :: uuid
  timeline_index :: int

record design_data =
  timeline :: "timeline_object list"
  entities :: "uuid \<rightharpoonup> entity"

section \<open>The kernel, the console and errors\<close>

text \<open>
  Every call into the CAD kernel is recorded, in order. \<open>CollectionAdd\<close> is
  \<^verbatim>\<open>ObjectCollection.add\<close>, \<open>CreateInput\<close> is \<^verbatim>\<open>extrudes.createInput\<close> with the
  collection's content and the operation tag, \<open>SetStartExtent\<close> assigns an offset start
  definition built from the given value, and \<open>AddExtrude\<close> is \<^verbatim>\<open>extrudes.add\<close>.
\<close>

datatype kernel_call =
    AddWithoutEdges
  | SetTransform "real list"
  | SetIsComputeDeferred bool
  | AddByTwoPoints point3d point3d
  | AddByCenterStartSweep point3d point3d real
  | AddByCenterRadius point3d real
  | SetCustomUuid uuid
  | CollectionAdd "kernel_profile option"
  | CreateInput "kernel_profile option list" string
  | SetOneSideExtent real real
  | SetTwoSidesExtent real real real real
  | SetStartExtent real
  | AddExtrude

datatype log_line =
    Reconstructing string
  | Counts nat nat
  | UnsupportedCurveType string
  | ProfileNotFound uuid "uuid list"

datatype error = KeyError string | RuntimeError

record state =
  calls :: "kernel_call list"
  printed :: "log_line list"

text \<open>
  What the importer cannot decide itself is a parameter: the profiles the kernel derives
  for the sketch from the calls made so far (\<^verbatim>\<open>sketch.profiles\<close>), and whether
  \<^verbatim>\<open>ObjectCollection.add\<close> takes an item or raises. The importer does not read what
  \<^verbatim>\<open>add\<close> returns: a collection that declines an item without raising is not
  modelled. The kernel's collection holds kernel objects and refuses a null item: what is
  stated about a \<^verbatim>\<open>None\<close> handed to it is stated for the kernels of which
  \<open>collection_accepts\<close> is false at \<^verbatim>\<open>None\<close>.
\<close>

record kernel =
  sketch_profiles_of :: "kernel_call list \<Rightarrow> kernel_profile list"
  collection_accepts :: "kernel_profile option \<Rightarrow> bool"

definition invoke :: "kernel_call \<Rightarrow> state \<Rightarrow> state" where
  "invoke c s = s\<lparr>calls := calls s @ [c]\<rparr>"

definition print_line :: "log_line \<Rightarrow> state \<Rightarrow> state" where
  "print_line l s = s\<lparr>printed := printed s @ [l]\<rparr>"

text \<open>The kernel calls made between an earlier and a later state.\<close>

definition issued :: "state \<Rightarrow> state \<Rightarrow> kernel_call list" where
  "issued s s' = drop (length (calls s)) (calls s')"

section \<open>The geometric matcher\<close>

text \<open>
  Rounding to the nearest double, ties to even. A double is an integer multiple of
  \<open>2 ^ - 1074\<close> with a significand of at most 53 bits: \<open>round_double\<close> counts \<open>x\<close> in
  units of \<open>2 ^ - 1074\<close>, drops the bits beyond the 53rd and rounds what is dropped.
  Results beyond the largest double, which the hardware turns into an infinity, stay
  finite here; the comparisons of \<^verbatim>\<open>math.isclose\<close> come out the same.
\<close>

definition round_half_even :: "real \<Rightarrow> int" where
  "round_half_even y =
     (let n = \<lfloor>y\<rfloor>; r = y - of_int n
      in if r < 1 / 2 then n else if 1 / 2 < r then n + 1 else if even n then n else n + 1)"

definition round_double :: "real \<Rightarrow> real" where
  "round_double x =
     (let y = \<bar>x\<bar> * 2 ^ 1074; k = nat (bitlen \<lfloor>y\<rfloor> - 53)
      in sgn x * (of_int (round_half_even (y / 2 ^ k)) * 2 ^ k / 2 ^ 1074))"

text \<open>
  \<^verbatim>\<open>math.isclose(a, b, abs_tol=t)\<close> of the Python standard library, on finite doubles:
  equal values are close; otherwise the rounded difference is compared with the rounded
  products of the relative tolerance and with the absolute tolerance. The relative
  tolerance keeps its default \<^verbatim>\<open>1e-09\<close>, and \<^verbatim>\<open>tolerance = 0.000000001\<close> is the same
  double, \<open>4835703278458517 * 2 ^ - 82\<close>.
\<close>

definition rel_tol :: real where
  "rel_tol = 4835703278458517 / 2 ^ 82"

definition isclose :: "real \<Rightarrow> real \<Rightarrow> real \<Rightarrow> bool" where
  "isclose a b abs_tol =
     (if a = b then True
      else let diff = \<bar>round_double (b - a)\<bar>
           in (diff \<le> \<bar>round_double (rel_tol * b)\<bar> \<or> diff \<le> \<bar>round_double (rel_tol * a)\<bar>)
              \<or> diff \<le> abs_tol)"

definition tolerance :: real where
  "tolerance = 4835703278458517 / 2 ^ 82"

definition are_profile_properties_identical :: "kernel_profile \<Rightarrow> profile_data \<Rightarrow> bool" where
  "are_profile_properties_identical profile d =
     (let profile_props = areaProperties profile in
      if \<not> isclose (area profile_props) (area (properties d)) tolerance then False
      else if \<not> isclose (perimeter profile_props) (perimeter (properties d)) tolerance then False
      else if \<not> isclose (coord_x (centroid profile_props)) (coord_x (centroid (properties d))) tolerance
        then False
      else if \<not> isclose (coord_y (centroid profile_props)) (coord_y (centroid (properties d))) tolerance
        then False
      else if \<not> isclose (coord_z (centroid profile_props)) (coord_z (centroid (properties d))) tolerance
        then False
      else True)"

fun loop_curves :: "uuid list \<Rightarrow> uuid list \<Rightarrow> uuid list" where
  "loop_curves [] curve_uuids = curve_uuids"
| "loop_curves (c # profile_curves) curve_uuids = loop_curves profile_curves (curve_uuids @ [c])"

fun all_loop_curves :: "uuid list list \<Rightarrow> uuid list \<Rightarrow> uuid list" where
  "all_loop_curves [] curve_uuids = curve_uuids"
| "all_loop_curves (l # ls) curve_uuids = all_loop_curves ls (loop_curves l curve_uuids)"

definition get_curve_uuids :: "profile_data \<Rightarrow> uuid list" where
  "get_curve_uuids d = sort (all_loop_curves (loops d) [])"

fun found_in_loop :: "uuid option list \<Rightarrow> uuid list \<Rightarrow> uuid list" where
  "found_in_loop [] found = found"
| "found_in_loop (curve_uuid # profileCurves) found =
     (case curve_uuid of
        None \<Rightarrow> found_in_loop profileCurves found
      | Some u \<Rightarrow> found_in_loop profileCurves (found @ [u]))"

fun found_in_loops :: "uuid option list list \<Rightarrow> uuid list \<Rightarrow> uuid list" where
  "found_in_loops [] found = found"
| "found_in_loops (l # ls) found = found_in_loops ls (found_in_loop l found)"

definition found_curve_uuids :: "kernel_profile \<Rightarrow> uuid list" where
  "found_curve_uuids profile = found_in_loops (profileLoops profile) []"

text \<open>The test of line 60: the candidate's sorted identifiers and its five invariants.\<close>

definition candidate_matches :: "uuid list \<Rightarrow> profile_data \<Rightarrow> kernel_profile \<Rightarrow> bool" where
  "candidate_matches sorted_curve_uuids d profile =
     (sort (found_curve_uuids profile) = sorted_curve_uuids
      \<and> are_profile_properties_identical profile d)"

fun first_matching :: "uuid list \<Rightarrow> profile_data \<Rightarrow> kernel_profile list \<Rightarrow> kernel_profile option" where
  "first_matching sorted_curve_uuids d [] = None"
| "first_matching sorted_curve_uuids d (profile # rest) =
     (if candidate_matches sorted_curve_uuids d profile then Some profile
      else first_matching sorted_curve_uuids d rest)"

definition find_profile ::
  "kernel_profile list \<Rightarrow> uuid \<Rightarrow> profile_data \<Rightarrow> state \<Rightarrow> kernel_profile option \<times> state" where
  "find_profile candidates profile_uuid d s =
     (let sorted_curve_uuids = get_curve_uuids d in
      case first_matching sorted_curve_uuids d candidates of
        Some profile \<Rightarrow> (Some profile, s)
      | None \<Rightarrow> (None, print_line (ProfileNotFound profile_uuid sorted_curve_uuids) s))"

section \<open>The sketch reconstructor\<close>

definition reconstruct_sketch_line ::
  "uuid \<Rightarrow> uuid \<Rightarrow> uuid \<Rightarrow> (uuid \<times> point3d) list \<Rightarrow> state \<Rightarrow> (error + unit) \<times> state" where
  "reconstruct_sketch_line start_point_uuid end_point_uuid curve_uuid points_data s =
     (case map_of points_data start_point_uuid of
        None \<Rightarrow> (Inl (KeyError start_point_uuid), s)
      | Some start_point \<Rightarrow>
          (case map_of points_data end_point_uuid of
             None \<Rightarrow> (Inl (KeyError end_point_uuid), s)
           | Some end_point \<Rightarrow>
               (Inr (), invoke (SetCustomUuid curve_uuid)
                          (invoke (AddByTwoPoints start_point end_point) s))))"

definition reconstruct_sketch_arc ::
  "uuid \<Rightarrow> uuid \<Rightarrow> real \<Rightarrow> real \<Rightarrow> uuid \<Rightarrow> (uuid \<times> point3d) list \<Rightarrow> state
    \<Rightarrow> (error + unit) \<times> state" where
  "reconstruct_sketch_arc start_point_uuid center_point_uuid start_angle end_angle curve_uuid
      points_data s =
     (case map_of points_data start_point_uuid of
        None \<Rightarrow> (Inl (KeyError start_point_uuid), s)
      | Some start_point \<Rightarrow>
          (case map_of points_data center_point_uuid of
             None \<Rightarrow> (Inl (KeyError center_point_uuid), s)
           | Some center_point \<Rightarrow>
               (let sweep_angle = end_angle - start_angle in
                (Inr (), invoke (SetCustomUuid curve_uuid)
                           (invoke (AddByCenterStartSweep center_point start_point sweep_angle) s)))))"

definition reconstruct_sketch_circle ::
  "uuid \<Rightarrow> real \<Rightarrow> uuid \<Rightarrow> (uuid \<times> point3d) list \<Rightarrow> state \<Rightarrow> (error + unit) \<times> state" where
  "reconstruct_sketch_circle center_point_uuid radius curve_uuid points_data s =
     (case map_of points_data center_point_uuid of
        None \<Rightarrow> (Inl (KeyError center_point_uuid), s)
      | Some center_point \<Rightarrow>
          (Inr (), invoke (SetCustomUuid curve_uuid)
                     (invoke (AddByCenterRadius center_point radius) s)))"

text \<open>One pass of the loop body of \<^verbatim>\<open>reconstruct_sketch_curves\<close>.\<close>

definition reconstruct_sketch_curve ::
  "uuid \<Rightarrow> curve_data \<Rightarrow> (uuid \<times> point3d) list \<Rightarrow> state \<Rightarrow> (error + unit) \<times> state" where
  "reconstruct_sketch_curve curve_uuid curve points_data s =
     (if construction_geom curve then (Inr (), s)
      else case curve_type curve of
        SketchLine sp ep \<Rightarrow> reconstruct_sketch_line sp ep curve_uuid points_data s
      | SketchArc sp cp sa ea \<Rightarrow> reconstruct_sketch_arc sp cp sa ea curve_uuid points_data s
      | SketchCircle cp r \<Rightarrow> reconstruct_sketch_circle cp r curve_uuid points_data s
      | UnsupportedCurve t \<Rightarrow> (Inr (), print_line (UnsupportedCurveType t) s))"

fun reconstruct_sketch_curves ::
  "(uuid \<times> curve_data) list \<Rightarrow> (uuid \<times> point3d) list \<Rightarrow> state \<Rightarrow> (error + unit) \<times> state" where
  "reconstruct_sketch_curves [] points_data s = (Inr (), s)"
| "reconstruct_sketch_curves ((curve_uuid, curve) # rest) points_data s =
     (case reconstruct_sketch_curve curve_uuid curve points_data s of
        (Inl e, s') \<Rightarrow> (Inl e, s')
      | (Inr u, s') \<Rightarrow> reconstruct_sketch_curves rest points_data s')"

text \<open>
  A dictionary from profile identifiers to kernel profiles or \<^verbatim>\<open>None\<close>, as an
  association list in insertion order: \<^verbatim>\<open>d[k] = v\<close> is \<open>AList.update k v d\<close> (an
  existing key keeps its place, a new one goes last), \<^verbatim>\<open>d[k]\<close> is \<open>map_of d k\<close>, a
  \<open>KeyError\<close> when that is \<open>None\<close>, and the dictionary is false in a condition when it
  is \<open>[]\<close>. A key that is present with the value \<^verbatim>\<open>None\<close> has \<open>map_of d k = Some
  None\<close>.
\<close>

type_synonym profile_table = "(uuid \<times> kernel_profile option) list"

text \<open>\<^verbatim>\<open>d.update(**other)\<close>: the entries of \<open>other\<close> are written into \<open>d\<close> in order.\<close>

fun dict_update :: "profile_table \<Rightarrow> profile_table \<Rightarrow> profile_table" where
  "dict_update d [] = d"
| "dict_update d ((k, v) # other) = dict_update (AList.update k v d) other"

text \<open>The profile loop of \<^verbatim>\<open>reconstruct_curves\<close> (lines 113 to 118).\<close>

fun find_profiles ::
  "kernel \<Rightarrow> (uuid \<times> profile_data) list \<Rightarrow> profile_table \<Rightarrow> state \<Rightarrow> profile_table \<times> state" where
  "find_profiles k [] sketch_profiles s = (sketch_profiles, s)"
| "find_profiles k ((profile_uuid, d) # rest) sketch_profiles s =
     (case find_profile (sketch_profiles_of k (calls s)) profile_uuid d s of
        (sketch_profile, s') \<Rightarrow>
          find_profiles k rest (AList.update profile_uuid sketch_profile sketch_profiles) s')"

definition reconstruct_curves ::
  "kernel \<Rightarrow> sketch_data \<Rightarrow> state \<Rightarrow> (error + profile_table) \<times> state" where
  "reconstruct_curves k sd s =
     (case curves sd of
        None \<Rightarrow> (Inl (KeyError ''curves''), s)
      | Some curves_data \<Rightarrow>
          (let s1 = print_line (Counts (length (points sd)) (length curves_data)) s;
               s2 = invoke (SetIsComputeDeferred True) s1
           in case reconstruct_sketch_curves curves_data (points sd) s2 of
                (Inl e, s3) \<Rightarrow> (Inl e, s3)
              | (Inr u, s3) \<Rightarrow>
                  (case find_profiles k (profiles sd) []
                          (invoke (SetIsComputeDeferred False) s3) of
                     (sketch_profiles, s4) \<Rightarrow> (Inr sketch_profiles, s4))))"

definition reconstruct_sketch ::
  "kernel \<Rightarrow> sketch_data \<Rightarrow> state \<Rightarrow> (error + profile_table option) \<times> state" where
  "reconstruct_sketch k sd s =
     (case curves sd of
        None \<Rightarrow> (Inr None, s)
      | Some curves_data \<Rightarrow>
          (let s1 = invoke AddWithoutEdges s;
               s2 = invoke (SetTransform (transform sd)) s1
           in case reconstruct_curves k sd s2 of
                (Inl e, s3) \<Rightarrow> (Inl e, s3)
              | (Inr sketch_profiles, s3) \<Rightarrow> (Inr (Some sketch_profiles), s3)))"

section \<open>The extrude reconstructor\<close>

definition set_start_extent :: "start_definition \<Rightarrow> state \<Rightarrow> state" where
  "set_start_extent start s =
     (case start of
        OffsetStartDefinition offset \<Rightarrow> invoke (SetStartExtent offset) s
      | ProfilePlaneStartDefinition \<Rightarrow> s
      | OtherStartDefinition t \<Rightarrow> s)"

definition set_one_side_extrude_input :: "extent \<Rightarrow> state \<Rightarrow> state" where
  "set_one_side_extrude_input e1 s =
     (let taper = (case taper_angle e1 of None \<Rightarrow> 0 | Some t \<Rightarrow> t)
      in invoke (SetOneSideExtent (distance e1) taper) s)"

definition set_two_side_extrude_input :: "extent \<Rightarrow> extent \<Rightarrow> state \<Rightarrow> state" where
  "set_two_side_extrude_input e1 e2 s =
     (let taper_angle_one = (case taper_angle e1 of None \<Rightarrow> 0 | Some t \<Rightarrow> t);
          taper_angle_two = (case taper_angle e2 of None \<Rightarrow> 0 | Some t \<Rightarrow> t)
      in invoke (SetTwoSidesExtent (distance e1) (distance e2) taper_angle_one taper_angle_two) s)"

definition set_symmetric_extrude_input :: "extent \<Rightarrow> state \<Rightarrow> (error + unit) \<times> state" where
  "set_symmetric_extrude_input e1 s =
     (case is_full_length e1 of
        None \<Rightarrow> (Inl (KeyError ''is_full_length''), s)
      | Some full \<Rightarrow>
          (let d = (if full then distance e1 * 0.5 else distance e1);
               taper_angle_one = (case taper_angle e1 of None \<Rightarrow> 0 | Some t \<Rightarrow> t);
               taper_angle_two = (case taper_angle e1 of None \<Rightarrow> 0 | Some t \<Rightarrow> t)
           in (Inr (), invoke (SetTwoSidesExtent d d taper_angle_one taper_angle_two) s)))"

text \<open>
  The loop of lines 163 to 166: \<^verbatim>\<open>sketch_profiles[profile_uuid]\<close> raises
  \<open>KeyError\<close> on an absent key; whatever value is found, \<^verbatim>\<open>None\<close> included, is
  handed to \<^verbatim>\<open>ObjectCollection.add\<close>.
\<close>

fun add_profiles ::
  "kernel \<Rightarrow> uuid list \<Rightarrow> profile_table \<Rightarrow> kernel_profile option list \<Rightarrow> state
    \<Rightarrow> (error + kernel_profile option list) \<times> state" where
  "add_profiles k [] sketch_profiles collection s = (Inr collection, s)"
| "add_profiles k (profile_uuid # rest) sketch_profiles collection s =
     (case map_of sketch_profiles profile_uuid of
        None \<Rightarrow> (Inl (KeyError profile_uuid), s)
      | Some item \<Rightarrow>
          (if collection_accepts k item
           then add_profiles k rest sketch_profiles (collection @ [item]) (invoke (CollectionAdd item) s)
           else (Inl RuntimeError, invoke (CollectionAdd item) s)))"

definition set_extent :: "extrude_data \<Rightarrow> state \<Rightarrow> (error + unit) \<times> state" where
  "set_extent ed s =
     (if extent_type ed = ''OneSideFeatureExtentType''
        then (Inr (), set_one_side_extrude_input (extent_one ed) s)
      else if extent_type ed = ''TwoSidesFeatureExtentType''
        then (case extent_two ed of
                None \<Rightarrow> (Inl (KeyError ''extent_two''), s)
              | Some e2 \<Rightarrow> (Inr (), set_two_side_extrude_input (extent_one ed) e2 s))
      else if extent_type ed = ''SymmetricFeatureExtentType''
        then set_symmetric_extrude_input (extent_one ed) s
      else (Inr (), s))"

definition reconstruct_extrude_feature ::
  "kernel \<Rightarrow> extrude_data \<Rightarrow> profile_table \<Rightarrow> state \<Rightarrow> (error + unit) \<times> state" where
  "reconstruct_extrude_feature k ed sketch_profiles s =
     (case add_profiles k (extrude_profiles ed) sketch_profiles [] s of
        (Inl e, s1) \<Rightarrow> (Inl e, s1)
      | (Inr collection, s1) \<Rightarrow>
          (case set_extent ed (invoke (CreateInput collection (operation ed)) s1) of
             (Inl e, s2) \<Rightarrow> (Inl e, s2)
           | (Inr u, s2) \<Rightarrow>
               (Inr (), invoke AddExtrude (set_start_extent (start_extent ed) s2))))"

section \<open>The timeline driver\<close>

fun entity_name :: "entity \<Rightarrow> string" where
  "entity_name (Sketch n sd) = n"
| "entity_name (ExtrudeFeature n ed) = n"
| "entity_name (OtherEntity n t) = n"

text \<open>
  One pass of the loop body of \<^verbatim>\<open>reconstruct\<close>, on the running table
  \<^verbatim>\<open>sketch_profiles\<close>. \<^verbatim>\<open>if sketch_profile_set:\<close> is false for \<^verbatim>\<open>None\<close> and
  for the empty dictionary.
\<close>

definition reconstruct_entry ::
  "kernel \<Rightarrow> (uuid \<rightharpoonup> entity) \<Rightarrow> timeline_object \<Rightarrow> profile_table \<Rightarrow> state
    \<Rightarrow> (error + profile_table) \<times> state" where
  "reconstruct_entry k ents timeline_obj sketch_profiles s =
     (case ents (timeline_entity timeline_obj) of
        None \<Rightarrow> (Inl (KeyError (timeline_entity timeline_obj)), s)
      | Some ent \<Rightarrow>
          (let s1 = print_line (Reconstructing (entity_name ent)) s in
           case ent of
             Sketch n sd \<Rightarrow>
               (case reconstruct_sketch k sd s1 of
                  (Inl e, s2) \<Rightarrow> (Inl e, s2)
                | (Inr sketch_profile_set, s2) \<Rightarrow>
                    (case sketch_profile_set of
                       None \<Rightarrow> (Inr sketch_profiles, s2)
                     | Some m \<Rightarrow>
                         (if m = [] then (Inr sketch_profiles, s2)
                          else (Inr (dict_update sketch_profiles m), s2))))
           | ExtrudeFeature n ed \<Rightarrow>
               (case reconstruct_extrude_feature k ed sketch_profiles s1 of
                  (Inl e, s2) \<Rightarrow> (Inl e, s2)
                | (Inr u, s2) \<Rightarrow> (Inr sketch_profiles, s2))
           | OtherEntity n t \<Rightarrow> (Inr sketch_profiles, s1)))"

fun reconstruct_timeline ::
  "kernel \<Rightarrow> (uuid \<rightharpoonup> entity) \<Rightarrow> timeline_object list \<Rightarrow> profile_table \<Rightarrow> state
    \<Rightarrow> (error + profile_table) \<times> state" where
  "reconstruct_timeline k ents [] sketch_profiles s = (Inr sketch_profiles, s)"
| "reconstruct_timeline k ents (timeline_obj # rest) sketch_profiles s =
     (case reconstruct_entry k ents timeline_obj sketch_profiles s of
        (Inl e, s') \<Rightarrow> (Inl e, s')
      | (Inr sketch_profiles', s') \<Rightarrow> reconstruct_timeline k ents rest sketch_profiles' s')"

definition reconstruct :: "kernel \<Rightarrow> design_data \<Rightarrow> state \<Rightarrow> (error + profile_table) \<times> state" where
  "reconstruct k data s = reconstruct_timeline k (entities data) (timeline data) [] s"

section \<open>Auxiliary notions for the statements\<close>

text \<open>
  The five quantities that \<^verbatim>\<open>are_profile_properties_identical\<close> compares, in the order
  of its checks, and their pairing (candidate value, recorded value).
\<close>

definition invariants :: "area_properties \<Rightarrow> real list" where
  "invariants props =
     [area props, perimeter props, coord_x (centroid props), coord_y (centroid props),
      coord_z (centroid props)]"

definition invariant_pairs :: "kernel_profile \<Rightarrow> profile_data \<Rightarrow> (real \<times> real) list" where
  "invariant_pairs profile d = zip (invariants (areaProperties profile)) (invariants (properties d))"

text \<open>
  The calls that create the extrude feature; the calls that the side-extent selection and
  the start extent make, taken from a run of the code on the empty state.
\<close>

fun is_feature_creation :: "kernel_call \<Rightarrow> bool" where
  "is_feature_creation (CreateInput collection op) = True"
| "is_feature_creation AddExtrude = True"
| "is_feature_creation c = False"

definition side_extent_calls :: "extrude_data \<Rightarrow> kernel_call list" where
  "side_extent_calls ed = calls (snd (set_extent ed \<lparr>calls = [], printed = []\<rparr>))"

definition start_extent_calls :: "start_definition \<Rightarrow> kernel_call list" where
  "start_extent_calls start = calls (set_start_extent start \<lparr>calls = [], printed = []\<rparr>)"

text \<open>
  A curve is materialized when its construction flag is false and its type is one of the
  three that \<^verbatim>\<open>reconstruct_sketch_curves\<close> draws. \<open>points_present\<close> is the invariant of
  the data model that the points of such curves are in the sketch's point mapping, and
  \<open>profiles_well_formed\<close> the invariant that a profile is bounded by curves of its sketch:
  its loops reference at least one curve, and every curve they reference is a key of the
  sketch's curve mapping.
  \<open>tagged\<close> lists the identifiers attached by a sequence of calls, and \<open>warnings\<close> the
  lines printed for the curves of another type.
\<close>

fun is_supported :: "curve_geometry \<Rightarrow> bool" where
  "is_supported (SketchLine sp ep) = True"
| "is_supported (SketchArc sp cp sa ea) = True"
| "is_supported (SketchCircle cp r) = True"
| "is_supported (UnsupportedCurve t) = False"

fun referenced_points :: "curve_geometry \<Rightarrow> uuid list" where
  "referenced_points (SketchLine sp ep) = [sp, ep]"
| "referenced_points (SketchArc sp cp sa ea) = [sp, cp]"
| "referenced_points (SketchCircle cp r) = [cp]"
| "referenced_points (UnsupportedCurve t) = []"

definition materialized :: "uuid \<times> curve_data \<Rightarrow> bool" where
  "materialized entry = (\<not> construction_geom (snd entry) \<and> is_supported (curve_type (snd entry)))"

definition points_present :: "(uuid \<times> point3d) list \<Rightarrow> (uuid \<times> curve_data) list \<Rightarrow> bool" where
  "points_present points_data curves_data =
     (\<forall>entry\<in>set curves_data. materialized entry \<longrightarrow>
        (\<forall>p\<in>set (referenced_points (curve_type (snd entry))). map_of points_data p \<noteq> None))"

definition profiles_well_formed :: "sketch_data \<Rightarrow> bool" where
  "profiles_well_formed sd =
     (\<forall>entry\<in>set (profiles sd).
        get_curve_uuids (snd entry) \<noteq> []
        \<and> (\<forall>c\<in>set (get_curve_uuids (snd entry)).
              c \<in> fst ` set (case curves sd of None \<Rightarrow> [] | Some curves_data \<Rightarrow> curves_data)))"

fun tagged :: "kernel_call list \<Rightarrow> uuid list" where
  "tagged [] = []"
| "tagged (SetCustomUuid u # cs) = u # tagged cs"
| "tagged (c # cs) = tagged cs"

fun is_curve_creation :: "kernel_call \<Rightarrow> bool" where
  "is_curve_creation (AddByTwoPoints p q) = True"
| "is_curve_creation (AddByCenterStartSweep c p a) = True"
| "is_curve_creation (AddByCenterRadius c r) = True"
| "is_curve_creation c = False"

fun warnings :: "(uuid \<times> curve_data) list \<Rightarrow> log_line list" where
  "warnings [] = []"
| "warnings ((u, c) # rest) =
     (if construction_geom c then []
      else case curve_type c of UnsupportedCurve t \<Rightarrow> [UnsupportedCurveType t] | _ \<Rightarrow> [])
     @ warnings rest"

text \<open>The entity names printed by the driver, in order.\<close>

fun entity_lines :: "log_line list \<Rightarrow> string list" where
  "entity_lines [] = []"
| "entity_lines (Reconstructing n # ls) = n # entity_lines ls"
| "entity_lines (l # ls) = entity_lines ls"

section \<open>Example inputs\<close>

text \<open>
  A recorded square profile bounded by the curves \<open>c0\<close>, \<open>c1\<close>, \<open>c2\<close>, and kernel
  candidates for it: one that reproduces it exactly (with one untagged curve), one whose
  area is \<open>4096 + 2 ^ - 20\<close>, one with the same geometry and another boundary, and one
  whose centroid is displaced by \<open>2 ^ - 10\<close>.
\<close>

definition square_props :: area_properties where
  "square_props = \<lparr>area = 4096, perimeter = 256,
     centroid = \<lparr>coord_x = 32, coord_y = 32, coord_z = 0\<rparr>\<rparr>"

definition square_record :: profile_data where
  "square_record = \<lparr>loops = [[''c1'', ''c0''], [''c2'']], properties = square_props\<rparr>"

definition square_exact :: kernel_profile where
  "square_exact = \<lparr>profileLoops = [[Some ''c2'', None], [Some ''c0'', Some ''c1'']],
     areaProperties = square_props\<rparr>"

definition square_near :: kernel_profile where
  "square_near = \<lparr>profileLoops = [[Some ''c0'', Some ''c1'', Some ''c2'']],
     areaProperties = square_props\<lparr>area := 4294967297 / 1048576\<rparr>\<rparr>"

definition square_other_boundary :: kernel_profile where
  "square_other_boundary = \<lparr>profileLoops = [[Some ''c0'', Some ''c1'', Some ''c3'']],
     areaProperties = square_props\<rparr>"

definition square_shifted :: kernel_profile where
  "square_shifted = \<lparr>profileLoops = [[Some ''c0'', Some ''c1'', Some ''c2'']],
     areaProperties = square_props\<lparr>centroid := \<lparr>coord_x = 32, coord_y = 32, coord_z = 1 / 1024\<rparr>\<rparr>\<rparr>"

definition start_state :: state where
  "start_state = \<lparr>calls = [], printed = []\<rparr>"

definition fixed_kernel :: "kernel_profile list \<Rightarrow> kernel" where
  "fixed_kernel ps = \<lparr>sketch_profiles_of = (\<lambda>cs. ps), collection_accepts = (\<lambda>item. True)\<rparr>"

text \<open>
  Extents and extrudes, two kernels that derive no profile (one whose collection takes
  any item, one whose collection refuses \<^verbatim>\<open>None\<close>), and a sketch with a line, a
  construction line on a missing point, an ellipse, a circle and an arc, among the
  entities of a design with an extrude and an entity of another type.
\<close>

definition ten_full :: extent where
  "ten_full = \<lparr>distance = 10, taper_angle = None, is_full_length = Some True\<rparr>"

definition ten_half :: extent where
  "ten_half = \<lparr>distance = 10, taper_angle = Some (1 / 4), is_full_length = Some False\<rparr>"


definition one_side_extrude :: extrude_data where
  "one_side_extrude = \<lparr>extrude_profiles = [''p1''], operation = ''NewBodyFeatureOperation'',
     extent_type = ''OneSideFeatureExtentType'',
     extent_one = \<lparr>distance = 3, taper_angle = None, is_full_length = None\<rparr>,
     extent_two = None, start_extent = OffsetStartDefinition 2\<rparr>"

definition symmetric_extrude :: extrude_data where
  "symmetric_extrude = one_side_extrude\<lparr>extent_type := ''SymmetricFeatureExtentType'',
     extent_one := ten_full, start_extent := OtherStartDefinition ''FromEntityStartDefinition''\<rparr>"


definition permissive_kernel :: kernel where
  "permissive_kernel = \<lparr>sketch_profiles_of = (\<lambda>cs. []), collection_accepts = (\<lambda>item. True)\<rparr>"

definition strict_kernel :: kernel where
  "strict_kernel = \<lparr>sketch_profiles_of = (\<lambda>cs. []), collection_accepts = (\<lambda>item. item \<noteq> None)\<rparr>"

definition origin :: point3d where
  "origin = \<lparr>coord_x = 0, coord_y = 0, coord_z = 0\<rparr>"

definition unit_x :: point3d where
  "unit_x = \<lparr>coord_x = 1, coord_y = 0, coord_z = 0\<rparr>"

definition sample_curves :: "(uuid \<times> curve_data) list" where
  "sample_curves =
     [(''L1'', \<lparr>construction_geom = False, curve_type = SketchLine ''a'' ''b''\<rparr>),
      (''K1'', \<lparr>construction_geom = True, curve_type = SketchLine ''a'' ''missing''\<rparr>),
      (''E1'', \<lparr>construction_geom = False, curve_type = UnsupportedCurve ''SketchEllipse''\<rparr>),
      (''C1'', \<lparr>construction_geom = False, curve_type = SketchCircle ''a'' 2\<rparr>),
      (''A1'', \<lparr>construction_geom = False, curve_type = SketchArc ''b'' ''a'' 1 3\<rparr>)]"

definition sample_points :: "(uuid \<times> point3d) list" where
  "sample_points = [(''a'', origin), (''b'', unit_x)]"

definition placeholder_sketch :: sketch_data where
  "placeholder_sketch = \<lparr>transform = [], points = [], curves = None, profiles = []\<rparr>"

definition blank_sketch :: sketch_data where
  "blank_sketch = \<lparr>transform = [], points = [], curves = Some [], profiles = []\<rparr>"

definition sample_sketch :: sketch_data where
  "sample_sketch = \<lparr>transform = [], points = sample_points, curves = Some sample_curves,
     profiles = [(''p1'', square_record),
                 (''p2'', \<lparr>loops = [[''c9'']], properties = square_props\<rparr>)]\<rparr>"

definition sample_entities :: "uuid \<rightharpoonup> entity" where
  "sample_entities = [''s1'' \<mapsto> Sketch ''Sketch1'' sample_sketch,
     ''e1'' \<mapsto> ExtrudeFeature ''Extrude1'' one_side_extrude,
     ''x1'' \<mapsto> OtherEntity ''Fillet1'' ''FilletFeature'']"

definition entry :: "uuid \<Rightarrow> timeline_object" where
  "entry u = \<lparr>timeline_entity = u, timeline_index = 0\<rparr>"

text \<open>
  A design with two sketches: the sample sketch, then a sketch of one disc bounded by the
  circle \<open>D1\<close>, and an extrude of one profile of each. Its kernel derives the square for
  the first sketch created and the disc for the later ones, and its collection refuses
  \<^verbatim>\<open>None\<close>.
\<close>

definition disc_props :: area_properties where
  "disc_props = \<lparr>area = 201 / 16, perimeter = 201 / 16,
     centroid = \<lparr>coord_x = 0, coord_y = 0, coord_z = 0\<rparr>\<rparr>"

definition disc_record :: profile_data where
  "disc_record = \<lparr>loops = [[''D1'']], properties = disc_props\<rparr>"

definition disc_profile :: kernel_profile where
  "disc_profile = \<lparr>profileLoops = [[Some ''D1'']], areaProperties = disc_props\<rparr>"

definition disc_sketch :: sketch_data where
  "disc_sketch = \<lparr>transform = [], points = sample_points,
     curves = Some [(''D1'', \<lparr>construction_geom = False, curve_type = SketchCircle ''a'' 2\<rparr>)],
     profiles = [(''q1'', disc_record)]\<rparr>"

definition two_profile_extrude :: extrude_data where
  "two_profile_extrude = one_side_extrude\<lparr>extrude_profiles := [''p1'', ''q1'']\<rparr>"

definition two_sketch_kernel :: kernel where
  "two_sketch_kernel =
     \<lparr>sketch_profiles_of =
        (\<lambda>cs. if length (filter (\<lambda>c. c = AddWithoutEdges) cs) = 1 then [square_exact]
              else [disc_profile]),
      collection_accepts = (\<lambda>item. item \<noteq> None)\<rparr>"

definition two_sketch_entities :: "uuid \<rightharpoonup> entity" where
  "two_sketch_entities = sample_entities(''s2'' \<mapsto> Sketch ''Sketch2'' disc_sketch,
     ''e2'' \<mapsto> ExtrudeFeature ''Extrude2'' two_profile_extrude)"

definition two_sketch_design :: design_data where
  "two_sketch_design = \<lparr>timeline = [entry ''s1'', entry ''x1'', entry ''s2'', entry ''e2''],
     entities = two_sketch_entities\<rparr>"

section \<open>Properties of the matcher\<close>

lemmas example_defs = square_props_def square_record_def square_exact_def square_near_def
  square_other_boundary_def square_shifted_def start_state_def fixed_kernel_def

lemma loop_curves_append: "loop_curves l acc = acc @ l"
  by (induction l arbitrary: acc) simp_all

lemma all_loop_curves_concat: "all_loop_curves ls acc = acc @ concat ls"
  by (induction ls arbitrary: acc) (simp_all add: loop_curves_append)

lemma get_curve_uuids_sort: "get_curve_uuids d = sort (concat (loops d))"
  by (simp add: get_curve_uuids_def all_loop_curves_concat)

lemma found_in_loop_filter:
  "found_in_loop l acc = acc @ map the (filter (\<lambda>c. c \<noteq> None) l)"
  by (induction l arbitrary: acc) (simp_all split: option.splits)

lemma found_in_loops_concat:
  "found_in_loops ls acc = acc @ concat (map (\<lambda>l. map the (filter (\<lambda>c. c \<noteq> None) l)) ls)"
  by (induction ls arbitrary: acc) (simp_all add: found_in_loop_filter)

lemma found_curve_uuids_concat:
  "found_curve_uuids p = concat (map (\<lambda>l. map the (filter (\<lambda>c. c \<noteq> None) l)) (profileLoops p))"
  by (simp add: found_curve_uuids_def found_in_loops_concat)

lemma sort_eq_iff_mset: "sort xs = sort ys \<longleftrightarrow> mset xs = mset ys"
proof
  assume "sort xs = sort ys"
  then have "mset (sort xs) = mset (sort ys)" by simp
  then show "mset xs = mset ys" by simp
next
  assume "mset xs = mset ys"
  then show "sort xs = sort ys"
    by (metis properties_for_sort mset_sort sorted_sort)
qed

lemma first_matching_find:
  "first_matching ids d ps = List.find (candidate_matches ids d) ps"
  by (induction ps) simp_all

lemma first_matching_split:
  "ps = before @ p # after \<Longrightarrow> candidate_matches ids d p
    \<Longrightarrow> \<forall>q\<in>set before. \<not> candidate_matches ids d q
    \<Longrightarrow> first_matching ids d ps = Some p"
  by (induction before arbitrary: ps) auto

lemma first_matching_None:
  "first_matching ids d ps = None \<longleftrightarrow> (\<forall>q\<in>set ps. \<not> candidate_matches ids d q)"
  by (induction ps) auto

lemma first_matching_accepts:
  "first_matching ids d ps = Some p \<Longrightarrow> candidate_matches ids d p"
  by (induction ps) (auto split: if_splits)

lemma find_profile_accepts:
  "fst (find_profile ps uid d s) = Some p \<Longrightarrow> candidate_matches (get_curve_uuids d) d p"
  by (auto simp: find_profile_def Let_def first_matching_accepts split: option.splits)

lemma round_half_even_near: "\<bar>of_int (round_half_even y) - y\<bar> \<le> 1 / 2"
proof -
  have "of_int \<lfloor>y\<rfloor> \<le> y" "y < of_int \<lfloor>y\<rfloor> + 1" by linarith+
  then show ?thesis
    by (auto simp: round_half_even_def Let_def)
qed

lemma round_double_accurate:
  "\<bar>round_double x - x\<bar> \<le> \<bar>x\<bar> / 2 ^ 53 + 1 / 2 ^ 1075"
proof -
  define S :: real where "S = 2 ^ 1074"
  define y where "y = \<bar>x\<bar> * S"
  define k where "k = nat (bitlen \<lfloor>y\<rfloor> - 53)"
  define r :: real where "r = of_int (round_half_even (y / 2 ^ k))"
  have S: "0 < S" by (simp add: S_def)
  have y0: "0 \<le> y" using S by (simp add: y_def)
  have rd: "round_double x = sgn x * (r * 2 ^ k / S)"
    by (simp add: round_double_def Let_def r_def k_def y_def S_def)
  have x: "x = sgn x * (y / S)" using S by (simp add: y_def sgn_mult_abs)
  have "round_double x - x = sgn x * ((r * 2 ^ k - y) / S)"
    by (subst rd, subst (2) x) (simp add: algebra_simps diff_divide_distrib)
  then have "\<bar>round_double x - x\<bar> = \<bar>sgn x\<bar> * (\<bar>r * 2 ^ k - y\<bar> / S)"
    using S by (simp add: abs_mult)
  also have "\<dots> \<le> \<bar>r * 2 ^ k - y\<bar> / S"
    using S by (cases "x = 0") (simp_all add: abs_sgn_eq)
  finally have e1: "\<bar>round_double x - x\<bar> \<le> \<bar>r * 2 ^ k - y\<bar> / S" .
  have "r * 2 ^ k - y = (r - y / 2 ^ k) * 2 ^ k" by (simp add: algebra_simps)
  then have "\<bar>r * 2 ^ k - y\<bar> = \<bar>r - y / 2 ^ k\<bar> * 2 ^ k" by (simp add: abs_mult)
  also have "\<dots> \<le> 1 / 2 * 2 ^ k"
    using round_half_even_near[of "y / 2 ^ k"] by (simp add: r_def)
  finally have e2: "\<bar>r * 2 ^ k - y\<bar> \<le> 2 ^ k / 2" by simp
  have e3: "2 ^ k / 2 \<le> max (1 / 2) (y / 2 ^ 53)"
  proof (cases "k = 0")
    case True
    then show ?thesis by simp
  next
    case False
    then have pos: "0 < bitlen \<lfloor>y\<rfloor> - 53" by (simp add: k_def)
    then have fpos: "0 < \<lfloor>y\<rfloor>" using bitlen_eq_zero_iff[of "\<lfloor>y\<rfloor>"] bitlen_nonneg[of "\<lfloor>y\<rfloor>"]
      by (cases "0 < \<lfloor>y\<rfloor>") auto
    from pos have "nat (bitlen \<lfloor>y\<rfloor> - 1) = k + 52" by (simp add: k_def)
    with bitlen_bounds[OF fpos] have "(2::int) ^ (k + 52) \<le> \<lfloor>y\<rfloor>" by simp
    then have "real_of_int (2 ^ (k + 52)) \<le> real_of_int \<lfloor>y\<rfloor>" by (rule of_int_le_iff[THEN iffD2])
    also have "\<dots> \<le> y" by linarith
    finally have "2 ^ k * 2 ^ 52 \<le> y" by (simp add: power_add)
    then have "2 ^ k / 2 \<le> y / 2 ^ 53" by simp
    then show ?thesis by simp
  qed
  from e2 e3 have "\<bar>r * 2 ^ k - y\<bar> \<le> max (1 / 2) (y / 2 ^ 53)" by linarith
  then have "\<bar>r * 2 ^ k - y\<bar> / S \<le> max (1 / 2) (y / 2 ^ 53) / S"
    using S by (simp add: divide_right_mono)
  also have "\<dots> \<le> (1 / 2) / S + (y / 2 ^ 53) / S"
    using S y0 by (simp add: max_def add_increasing add_increasing2)
  also have "(y / 2 ^ 53) / S = \<bar>x\<bar> / 2 ^ 53" using S by (simp add: y_def)
  also have "(1 / 2) / S = 1 / 2 ^ 1075" by (simp add: S_def)
  finally show ?thesis using e1 by linarith
qed

lemma isclose_refl: "isclose a a abs_tol"
  by (simp add: isclose_def)

lemma round_double_bounds:
  "\<bar>x\<bar> - \<bar>x\<bar> / 2 ^ 53 - 1 / 10 ^ 30 \<le> \<bar>round_double x\<bar>"
  "\<bar>round_double x\<bar> \<le> \<bar>x\<bar> + \<bar>x\<bar> / 2 ^ 53 + 1 / 10 ^ 30"
proof -
  have "(1::real) / 2 ^ 1075 \<le> 1 / 10 ^ 30" by simp
  with round_double_accurate[of x]
  have "\<bar>round_double x - x\<bar> \<le> \<bar>x\<bar> / 2 ^ 53 + 1 / 10 ^ 30" by linarith
  then show "\<bar>x\<bar> - \<bar>x\<bar> / 2 ^ 53 - 1 / 10 ^ 30 \<le> \<bar>round_double x\<bar>"
    "\<bar>round_double x\<bar> \<le> \<bar>x\<bar> + \<bar>x\<bar> / 2 ^ 53 + 1 / 10 ^ 30" by linarith+
qed

lemma rel_tol_times: "\<bar>rel_tol * x\<bar> = 4835703278458517 / 2 ^ 82 * \<bar>x\<bar>"
  by (simp add: rel_tol_def abs_mult)

lemma isclose_rejects:
  assumes "(1 + 1 / 2 ^ 50) * max (1 / 10 ^ 9) (1 / 10 ^ 9 * max \<bar>a\<bar> \<bar>b\<bar>) < \<bar>a - b\<bar>"
  shows "\<not> isclose a b tolerance"
proof -
  define D where "D = \<bar>b - a\<bar>"
  define F where "F = \<bar>round_double (b - a)\<bar>"
  define A where "A = \<bar>a\<bar>"
  define B where "B = \<bar>b\<bar>"
  define PA where "PA = \<bar>round_double (rel_tol * a)\<bar>"
  define PB where "PB = \<bar>round_double (rel_tol * b)\<bar>"
  have D: "D = \<bar>a - b\<bar>" by (simp add: D_def abs_minus_commute)
  from assms have m1: "(1 + 1 / 2 ^ 50) * (1 / 10 ^ 9) < D"
    and m2: "(1 + 1 / 2 ^ 50) * (1 / 10 ^ 9 * A) < D"
    and m3: "(1 + 1 / 2 ^ 50) * (1 / 10 ^ 9 * B) < D"
    unfolding D A_def B_def by (auto simp: max_def split: if_splits)
  have A0: "0 \<le> A" and B0: "0 \<le> B" by (simp_all add: A_def B_def)
  have fl: "D - D / 2 ^ 53 - 1 / 10 ^ 30 \<le> F"
    using round_double_bounds(1)[of "b - a"] by (simp add: D_def F_def)
  have pa: "PA \<le> 4835703278458517 / 2 ^ 82 * A + (4835703278458517 / 2 ^ 82 * A) / 2 ^ 53 + 1 / 10 ^ 30"
    using round_double_bounds(2)[of "rel_tol * a"] by (simp add: PA_def A_def rel_tol_times)
  have pb: "PB \<le> 4835703278458517 / 2 ^ 82 * B + (4835703278458517 / 2 ^ 82 * B) / 2 ^ 53 + 1 / 10 ^ 30"
    using round_double_bounds(2)[of "rel_tol * b"] by (simp add: PB_def B_def rel_tol_times)
  from m1 have ne: "a \<noteq> b" by (auto simp: D)
  have r1: "tolerance < F" using m1 fl by (simp add: tolerance_def)
  have r2: "PA < F" using m1 m2 fl pa A0 by simp
  have r3: "PB < F" using m1 m3 fl pb B0 by simp
  from ne r1 r2 r3 show ?thesis
    by (simp add: isclose_def Let_def F_def PA_def PB_def not_le)
qed

lemma isclose_accepts:
  assumes "\<bar>a - b\<bar> \<le> (1 - 1 / 2 ^ 50) * max (1 / 10 ^ 9) (1 / 10 ^ 9 * max \<bar>a\<bar> \<bar>b\<bar>)"
  shows "isclose a b tolerance"
proof (cases "a = b")
  case True
  then show ?thesis by (simp add: isclose_def)
next
  case False
  define D where "D = \<bar>b - a\<bar>"
  define F where "F = \<bar>round_double (b - a)\<bar>"
  define A where "A = \<bar>a\<bar>"
  define B where "B = \<bar>b\<bar>"
  define PA where "PA = \<bar>round_double (rel_tol * a)\<bar>"
  define PB where "PB = \<bar>round_double (rel_tol * b)\<bar>"
  have D: "D = \<bar>a - b\<bar>" by (simp add: D_def abs_minus_commute)
  have A0: "0 \<le> A" and B0: "0 \<le> B" by (simp_all add: A_def B_def)
  have fl: "F \<le> D + D / 2 ^ 53 + 1 / 10 ^ 30"
    using round_double_bounds(2)[of "b - a"] by (simp add: D_def F_def)
  have pa: "4835703278458517 / 2 ^ 82 * A - (4835703278458517 / 2 ^ 82 * A) / 2 ^ 53 - 1 / 10 ^ 30 \<le> PA"
    using round_double_bounds(1)[of "rel_tol * a"] by (simp add: PA_def A_def rel_tol_times)
  have pb: "4835703278458517 / 2 ^ 82 * B - (4835703278458517 / 2 ^ 82 * B) / 2 ^ 53 - 1 / 10 ^ 30 \<le> PB"
    using round_double_bounds(1)[of "rel_tol * b"] by (simp add: PB_def B_def rel_tol_times)
  from assms consider
      (abs) "D \<le> (1 - 1 / 2 ^ 50) * (1 / 10 ^ 9)"
    | (ra) "1 \<le> A" "D \<le> (1 - 1 / 2 ^ 50) * (1 / 10 ^ 9 * A)"
    | (rb) "1 \<le> B" "D \<le> (1 - 1 / 2 ^ 50) * (1 / 10 ^ 9 * B)"
    unfolding D A_def B_def by (auto simp: max_def split: if_splits)
  then have "F \<le> PB \<or> F \<le> PA \<or> F \<le> tolerance"
  proof cases
    case abs
    with fl have "F \<le> tolerance" by (simp add: tolerance_def)
    then show ?thesis by simp
  next
    case ra
    with fl pa have "F \<le> PA" by simp
    then show ?thesis by simp
  next
    case rb
    with fl pb have "F \<le> PB" by simp
    then show ?thesis by simp
  qed
  with False show ?thesis
    by (auto simp: isclose_def Let_def F_def PA_def PB_def)
qed

lemma identical_iff_isclose:
  "are_profile_properties_identical p d \<longleftrightarrow>
     (\<forall>(a, b)\<in>set (invariant_pairs p d). isclose a b tolerance)"
proof -
  have "are_profile_properties_identical p d \<longleftrightarrow>
     isclose (area (areaProperties p)) (area (properties d)) tolerance
     \<and> isclose (perimeter (areaProperties p)) (perimeter (properties d)) tolerance
     \<and> isclose (coord_x (centroid (areaProperties p))) (coord_x (centroid (properties d))) tolerance
     \<and> isclose (coord_y (centroid (areaProperties p))) (coord_y (centroid (properties d))) tolerance
     \<and> isclose (coord_z (centroid (areaProperties p))) (coord_z (centroid (properties d))) tolerance"
    unfolding are_profile_properties_identical_def Let_def by (simp only: if_bool_eq_conj de_Morgan_conj) blast
  then show ?thesis
    unfolding invariant_pairs_def invariants_def
    by (simp only: zip_Cons_Cons zip_Nil list.set ball_simps prod.case insert_iff empty_iff) blast
qed

text \<open>The comparisons of the examples that are not between equal values.\<close>

lemma square_near_close: "isclose (4294967297 / 1048576) 4096 tolerance"
  by (rule isclose_accepts) simp

lemma square_shifted_far: "\<not> isclose (1 / 1024) 0 tolerance"
  by (rule isclose_rejects) simp

lemmas matcher_defs = find_profile_def candidate_matches_def found_curve_uuids_def
  get_curve_uuids_def are_profile_properties_identical_def isclose_refl square_near_close
  square_shifted_far print_line_def invoke_def

text \<open>
  Claim C1. \<^verbatim>\<open>find_profile\<close> returns the first candidate, in enumeration order, that
  passes both the comparison of the sorted curve identifiers and the five invariant
  checks. When no candidate passes it returns \<^verbatim>\<open>None\<close> and prints the expected profile
  identifier with the sorted curve identifiers; nothing is raised, and the profile loop of
  \<^verbatim>\<open>reconstruct_curves\<close> stores the \<^verbatim>\<open>None\<close> and goes on with the remaining
  profiles.
\<close>

theorem find_profile_first_match:
  "find_profile candidates profile_uuid d s =
     (case List.find (candidate_matches (get_curve_uuids d) d) candidates of
        Some p \<Rightarrow> (Some p, s)
      | None \<Rightarrow> (None, print_line (ProfileNotFound profile_uuid (get_curve_uuids d)) s))
   \<and> (\<forall>before p after.
        candidates = before @ p # after \<and> candidate_matches (get_curve_uuids d) d p
          \<and> (\<forall>q\<in>set before. \<not> candidate_matches (get_curve_uuids d) d q)
        \<longrightarrow> find_profile candidates profile_uuid d s = (Some p, s))
   \<and> ((\<forall>q\<in>set candidates. \<not> candidate_matches (get_curve_uuids d) d q)
        \<longrightarrow> find_profile candidates profile_uuid d s
            = (None, print_line (ProfileNotFound profile_uuid (get_curve_uuids d)) s))
   \<and> ((\<forall>q\<in>set (sketch_profiles_of k (calls s)). \<not> candidate_matches (get_curve_uuids d) d q)
        \<longrightarrow> find_profiles k ((profile_uuid, d) # rest) table s
            = find_profiles k rest (AList.update profile_uuid None table)
                (print_line (ProfileNotFound profile_uuid (get_curve_uuids d)) s))"
proof -
  let ?ids = "get_curve_uuids d"
  let ?miss = "print_line (ProfileNotFound profile_uuid ?ids) s"
  have eq: "find_profile candidates profile_uuid d s =
     (case List.find (candidate_matches ?ids d) candidates of
        Some p \<Rightarrow> (Some p, s) | None \<Rightarrow> (None, ?miss))"
    by (simp add: find_profile_def Let_def first_matching_find)
  have first: "find_profile candidates profile_uuid d s = (Some p, s)"
    if "candidates = before @ p # after" "candidate_matches ?ids d p"
       "\<forall>q\<in>set before. \<not> candidate_matches ?ids d q" for before p after
    using first_matching_split[OF that] by (simp add: find_profile_def Let_def)
  have none: "find_profile cs profile_uuid d s = (None, ?miss)"
    if "\<forall>q\<in>set cs. \<not> candidate_matches ?ids d q" for cs
  proof -
    from that have "first_matching ?ids d cs = None" by (simp add: first_matching_None)
    then show ?thesis by (simp add: find_profile_def Let_def)
  qed
  have cont: "find_profiles k ((profile_uuid, d) # rest) table s
      = find_profiles k rest (AList.update profile_uuid None table) ?miss"
    if "\<forall>q\<in>set (sketch_profiles_of k (calls s)). \<not> candidate_matches ?ids d q"
    using none[OF that] by simp
  from eq first none cont show ?thesis by blast
qed

theorem find_profile_first_match_witness:
  "find_profile [square_other_boundary, square_exact, square_near] ''p1'' square_record start_state
     = (Some square_exact, start_state)
   \<and> find_profile [square_other_boundary, square_shifted] ''p1'' square_record start_state
     = (None, \<lparr>calls = [], printed = [ProfileNotFound ''p1'' [''c0'', ''c1'', ''c2'']]\<rparr>)
   \<and> fst (find_profiles (fixed_kernel [square_shifted])
        [(''p1'', square_record), (''p2'', square_record)] [] start_state)
     = [(''p1'', None), (''p2'', None)]"
  using find_profile_first_match
    [of "[square_other_boundary, square_exact, square_near]" "''p1''" square_record start_state
        "fixed_kernel [square_shifted]" "[(''p2'', square_record)]" "[]"]
  by (simp add: example_defs matcher_defs)

text \<open>
  Claim C3 states that a candidate with the expected curve identifiers is rejected as
  soon as one of the five quantities differs from the recorded value by more than
  \<open>1e-9\<close>. The code compares with \<^verbatim>\<open>math.isclose(..., abs_tol=1e-9)\<close>, whose relative
  tolerance keeps its default \<open>1e-9\<close>: a candidate whose area is \<open>4096 + 2 ^ - 20\<close>
  against a recorded \<open>4096\<close> is accepted.
\<close>

theorem matcher_tolerance_counterexample:
  "1 / 10 ^ 9 < \<bar>area (areaProperties square_near) - area (properties square_record)\<bar>
   \<and> sort (found_curve_uuids square_near) = get_curve_uuids square_record
   \<and> find_profile [square_near] ''p1'' square_record start_state = (Some square_near, start_state)"
  by (simp add: example_defs matcher_defs)

text \<open>
  Claim C3, amended. With \<open>bound = max 1e-9 (1e-9 * max \<bar>a\<bar> \<bar>b\<bar>)\<close> for a candidate value
  \<open>a\<close> and a recorded value \<open>b\<close>: a candidate one of whose five quantities differs from the
  recorded one by more than \<open>(1 + 2 ^ - 50) * bound\<close> fails the five checks and the test of
  line 60, and is never the result of \<^verbatim>\<open>find_profile\<close>; a candidate all of whose
  quantities are within \<open>(1 - 2 ^ - 50) * bound\<close> passes the five checks. In between, the
  rounding of the double arithmetic in \<^verbatim>\<open>math.isclose\<close> decides: the five checks pass
  exactly when \<^verbatim>\<open>math.isclose\<close> holds of each pair.
\<close>

theorem matcher_rejects_beyond_tolerance:
  "((\<exists>(a, b)\<in>set (invariant_pairs p d).
        (1 + 1 / 2 ^ 50) * max (1 / 10 ^ 9) (1 / 10 ^ 9 * max \<bar>a\<bar> \<bar>b\<bar>) < \<bar>a - b\<bar>)
      \<longrightarrow> \<not> are_profile_properties_identical p d
        \<and> \<not> candidate_matches (get_curve_uuids d) d p
        \<and> fst (find_profile candidates profile_uuid d s) \<noteq> Some p)
   \<and> ((\<forall>(a, b)\<in>set (invariant_pairs p d).
        \<bar>a - b\<bar> \<le> (1 - 1 / 2 ^ 50) * max (1 / 10 ^ 9) (1 / 10 ^ 9 * max \<bar>a\<bar> \<bar>b\<bar>))
      \<longrightarrow> are_profile_properties_identical p d)
   \<and> (are_profile_properties_identical p d \<longleftrightarrow>
        (\<forall>(a, b)\<in>set (invariant_pairs p d). isclose a b tolerance))"
proof (intro conjI impI)
  assume far: "\<exists>(a, b)\<in>set (invariant_pairs p d).
        (1 + 1 / 2 ^ 50) * max (1 / 10 ^ 9) (1 / 10 ^ 9 * max \<bar>a\<bar> \<bar>b\<bar>) < \<bar>a - b\<bar>"
  then obtain a b where ab: "(a, b) \<in> set (invariant_pairs p d)"
    and gt: "(1 + 1 / 2 ^ 50) * max (1 / 10 ^ 9) (1 / 10 ^ 9 * max \<bar>a\<bar> \<bar>b\<bar>) < \<bar>a - b\<bar>"
    by blast
  from gt have "\<not> isclose a b tolerance" by (rule isclose_rejects)
  with ab show no: "\<not> are_profile_properties_identical p d"
    unfolding identical_iff_isclose by blast
  then show cm: "\<not> candidate_matches (get_curve_uuids d) d p"
    by (simp add: candidate_matches_def)
  with find_profile_accepts[of candidates profile_uuid d s p]
  show "fst (find_profile candidates profile_uuid d s) \<noteq> Some p" by blast
next
  assume near: "\<forall>(a, b)\<in>set (invariant_pairs p d).
        \<bar>a - b\<bar> \<le> (1 - 1 / 2 ^ 50) * max (1 / 10 ^ 9) (1 / 10 ^ 9 * max \<bar>a\<bar> \<bar>b\<bar>)"
  have "isclose a b tolerance" if "(a, b) \<in> set (invariant_pairs p d)" for a b
  proof (rule isclose_accepts)
    from near that
    show "\<bar>a - b\<bar> \<le> (1 - 1 / 2 ^ 50) * max (1 / 10 ^ 9) (1 / 10 ^ 9 * max \<bar>a\<bar> \<bar>b\<bar>)"
      by blast
  qed
  then show "are_profile_properties_identical p d"
    unfolding identical_iff_isclose by blast
next
  show "are_profile_properties_identical p d \<longleftrightarrow>
        (\<forall>(a, b)\<in>set (invariant_pairs p d). isclose a b tolerance)"
    by (rule identical_iff_isclose)
qed

theorem matcher_rejects_beyond_tolerance_witness:
  "(coord_z (centroid (areaProperties square_shifted)), coord_z (centroid (properties square_record)))
      \<in> set (invariant_pairs square_shifted square_record)
   \<and> (1 + 1 / 2 ^ 50)
        * max (1 / 10 ^ 9)
            (1 / 10 ^ 9 * max \<bar>coord_z (centroid (areaProperties square_shifted))\<bar>
                              \<bar>coord_z (centroid (properties square_record))\<bar>)
       < \<bar>coord_z (centroid (areaProperties square_shifted))
          - coord_z (centroid (properties square_record))\<bar>
   \<and> sort (found_curve_uuids square_shifted) = get_curve_uuids square_record
   \<and> \<not> are_profile_properties_identical square_shifted square_record
   \<and> fst (find_profile [square_shifted] ''p1'' square_record start_state) \<noteq> Some square_shifted
   \<and> are_profile_properties_identical square_exact square_record"
  using matcher_rejects_beyond_tolerance [of square_shifted square_record "[square_shifted]" "''p1''" start_state]
    matcher_rejects_beyond_tolerance [of square_exact square_record "[square_exact]" "''p1''" start_state]
  by (simp add: example_defs matcher_defs invariant_pairs_def invariants_def)

text \<open>
  Claim C4. The candidate's identifiers are collected over all its loops, leaving out the
  curves without an identifier; the expected ones are the sorted identifiers of all
  recorded loops. A candidate whose identifiers differ from the expected ones as a
  multiset fails the test of line 60 whatever its geometry, and every profile that
  \<^verbatim>\<open>find_profile\<close> returns has the expected multiset of identifiers.
\<close>

theorem matcher_requires_curve_ids:
  "found_curve_uuids p
      = concat (map (\<lambda>l. map the (filter (\<lambda>c. c \<noteq> None) l)) (profileLoops p))
   \<and> get_curve_uuids d = sort (concat (loops d))
   \<and> (mset (found_curve_uuids p) \<noteq> mset (concat (loops d))
        \<longrightarrow> \<not> candidate_matches (get_curve_uuids d) d p
          \<and> fst (find_profile candidates profile_uuid d s) \<noteq> Some p)
   \<and> (fst (find_profile candidates profile_uuid d s) = Some p
        \<longrightarrow> mset (found_curve_uuids p) = mset (concat (loops d)))"
proof -
  have acc: "mset (found_curve_uuids p) = mset (concat (loops d))"
    if "candidate_matches (get_curve_uuids d) d p"
  proof -
    from that have "sort (found_curve_uuids p) = sort (concat (loops d))"
      by (simp add: candidate_matches_def get_curve_uuids_sort)
    then show ?thesis by (simp only: sort_eq_iff_mset)
  qed
  have ret: "mset (found_curve_uuids p) = mset (concat (loops d))"
    if "fst (find_profile candidates profile_uuid d s) = Some p"
    using acc[OF find_profile_accepts[OF that]] .
  from acc ret found_curve_uuids_concat[of p] get_curve_uuids_sort[of d]
  show ?thesis by blast
qed

theorem matcher_requires_curve_ids_witness:
  "mset (found_curve_uuids square_other_boundary) \<noteq> mset (concat (loops square_record))
   \<and> are_profile_properties_identical square_other_boundary square_record
   \<and> find_profile [square_other_boundary] ''p1'' square_record start_state
       = (None, \<lparr>calls = [], printed = [ProfileNotFound ''p1'' [''c0'', ''c1'', ''c2'']]\<rparr>)
   \<and> mset (found_curve_uuids square_exact) = mset (concat (loops square_record))
   \<and> fst (find_profile [square_exact] ''p1'' square_record start_state) = Some square_exact"
  using matcher_requires_curve_ids [of square_other_boundary square_record "[square_other_boundary]" "''p1''" start_state]
    matcher_requires_curve_ids [of square_exact square_record "[square_exact]" "''p1''" start_state]
  by (simp add: example_defs matcher_defs)

section \<open>Properties of the extrude reconstructor\<close>

lemmas extrude_example_defs = ten_full_def ten_half_def one_side_extrude_def symmetric_extrude_def
  permissive_kernel_def strict_kernel_def

lemmas extrude_defs = reconstruct_extrude_feature_def set_extent_def set_start_extent_def
  set_one_side_extrude_input_def set_two_side_extrude_input_def set_symmetric_extrude_input_def
  invoke_def print_line_def issued_def

lemma issued_append: "calls s' = calls s @ cs \<Longrightarrow> issued s s' = cs"
  by (simp add: issued_def)




lemma set_start_extent_effect:
  "calls (set_start_extent start s) = calls s @ start_extent_calls start
   \<and> printed (set_start_extent start s) = printed s"
  by (cases start) (simp_all add: set_start_extent_def start_extent_calls_def invoke_def)

lemma set_extent_effect:
  "calls (snd (set_extent ed s)) = calls s @ side_extent_calls ed
   \<and> printed (snd (set_extent ed s)) = printed s"
  by (simp add: set_extent_def side_extent_calls_def set_one_side_extrude_input_def
      set_two_side_extrude_input_def set_symmetric_extrude_input_def invoke_def Let_def
      split: option.splits)

lemma add_profiles_effect:
  "add_profiles k refs table collection s = (r, s') \<Longrightarrow>
     \<exists>items. calls s' = calls s @ map CollectionAdd items \<and> printed s' = printed s"
proof (induction refs arbitrary: collection s)
  case Nil
  then have "calls s' = calls s @ map CollectionAdd [] \<and> printed s' = printed s" by auto
  then show ?case by blast
next
  case (Cons u refs)
  show ?case
  proof (cases "map_of table u")
    case None
    with Cons.prems have "calls s' = calls s @ map CollectionAdd [] \<and> printed s' = printed s"
      by auto
    then show ?thesis by blast
  next
    case (Some item)
    show ?thesis
    proof (cases "collection_accepts k item")
      case True
      with Some Cons.prems have
        "add_profiles k refs table (collection @ [item]) (invoke (CollectionAdd item) s) = (r, s')"
        by simp
      from Cons.IH[OF this] obtain items where
        "calls s' = calls (invoke (CollectionAdd item) s) @ map CollectionAdd items"
        "printed s' = printed (invoke (CollectionAdd item) s)" by blast
      then have "calls s' = calls s @ map CollectionAdd (item # items) \<and> printed s' = printed s"
        by (simp add: invoke_def)
      then show ?thesis by blast
    next
      case False
      with Some Cons.prems have "calls s' = calls s @ map CollectionAdd [item] \<and> printed s' = printed s"
        by (auto simp: invoke_def)
      then show ?thesis by blast
    qed
  qed
qed

lemma add_profiles_success:
  "add_profiles k refs table collection s = (Inr collection', s') \<Longrightarrow>
     \<exists>items. map (map_of table) refs = map Some items \<and> collection' = collection @ items
       \<and> calls s' = calls s @ map CollectionAdd items \<and> printed s' = printed s
       \<and> (\<forall>item\<in>set items. collection_accepts k item)"
proof (induction refs arbitrary: collection s)
  case Nil
  then have "map (map_of table) [] = map Some [] \<and> collection' = collection @ []
       \<and> calls s' = calls s @ map CollectionAdd [] \<and> printed s' = printed s
       \<and> (\<forall>item\<in>set []. collection_accepts k item)" by auto
  then show ?case by blast
next
  case (Cons u refs)
  from Cons.prems obtain item where item: "map_of table u = Some item" "collection_accepts k item"
    and rest: "add_profiles k refs table (collection @ [item]) (invoke (CollectionAdd item) s)
      = (Inr collection', s')"
    by (auto split: option.splits if_splits)
  from Cons.IH[OF rest] obtain items where
    h: "map (map_of table) refs = map Some items" "collection' = (collection @ [item]) @ items"
       "calls s' = calls (invoke (CollectionAdd item) s) @ map CollectionAdd items"
       "printed s' = printed (invoke (CollectionAdd item) s)"
       "\<forall>i\<in>set items. collection_accepts k i" by blast
  with item have "map (map_of table) (u # refs) = map Some (item # items)
       \<and> collection' = collection @ (item # items)
       \<and> calls s' = calls s @ map CollectionAdd (item # items) \<and> printed s' = printed s
       \<and> (\<forall>i\<in>set (item # items). collection_accepts k i)"
    by (simp add: invoke_def)
  then show ?case by blast
qed

lemma add_profiles_fails:
  "\<exists>u\<in>set refs. map_of table u = None \<or> (\<exists>item. map_of table u = Some item \<and> \<not> collection_accepts k item)
    \<Longrightarrow> \<exists>e. fst (add_profiles k refs table collection s) = Inl e"
proof (induction refs arbitrary: collection s)
  case Nil
  then show ?case by simp
next
  case (Cons u refs)
  show ?case
  proof (cases "map_of table u")
    case None
    then show ?thesis by simp
  next
    case (Some item)
    show ?thesis
    proof (cases "collection_accepts k item")
      case True
      with Some Cons.prems have
        "\<exists>v\<in>set refs. map_of table v = None \<or> (\<exists>i. map_of table v = Some i \<and> \<not> collection_accepts k i)"
        by auto
      from Cons.IH[OF this] Some True show ?thesis by simp
    next
      case False
      with Some show ?thesis by simp
    qed
  qed
qed

lemma add_profiles_outcome:
  "fst (add_profiles k refs table collection s) = fst (add_profiles k refs table collection s0)"
proof (induction refs arbitrary: collection s s0)
  case Nil
  show ?case by simp
next
  case (Cons u refs)
  show ?case
  proof (cases "map_of table u")
    case None
    then show ?thesis by simp
  next
    case (Some item)
    with Cons.IH[of "collection @ [item]" "invoke (CollectionAdd item) s"
        "invoke (CollectionAdd item) s0"]
    show ?thesis by simp
  qed
qed

lemma side_extent_calls_no_creation:
  "\<forall>c\<in>set (side_extent_calls ed). \<not> is_feature_creation c"
  by (simp add: side_extent_calls_def set_extent_def set_one_side_extrude_input_def
      set_two_side_extrude_input_def set_symmetric_extrude_input_def invoke_def Let_def
      split: option.splits)

lemma start_extent_calls_no_creation:
  "\<forall>c\<in>set (start_extent_calls start). \<not> is_feature_creation c"
  by (cases start) (simp_all add: start_extent_calls_def set_start_extent_def invoke_def)

lemma extrude_success_trace:
  assumes "reconstruct_extrude_feature k ed table s = (Inr u, s')"
  shows "\<exists>collection. map (map_of table) (extrude_profiles ed) = map Some collection
      \<and> (\<forall>item\<in>set collection. collection_accepts k item)
      \<and> calls s' = calls s @ map CollectionAdd collection
            @ [CreateInput collection (operation ed)]
            @ side_extent_calls ed @ start_extent_calls (start_extent ed) @ [AddExtrude]
      \<and> printed s' = printed s"
proof -
  obtain r1 s1 where a: "add_profiles k (extrude_profiles ed) table [] s = (r1, s1)"
    by (cases "add_profiles k (extrude_profiles ed) table [] s")
  with assms obtain collection where r1: "r1 = Inr collection"
    by (cases r1) (auto simp: reconstruct_extrude_feature_def)
  let ?s1 = "invoke (CreateInput collection (operation ed)) s1"
  obtain r2 s2 where e: "set_extent ed ?s1 = (r2, s2)"
    by (cases "set_extent ed ?s1")
  with assms a r1 have s': "s' = invoke AddExtrude (set_start_extent (start_extent ed) s2)"
    by (cases r2) (auto simp: reconstruct_extrude_feature_def)
  from add_profiles_success[OF a[unfolded r1]] obtain items where
    items: "map (map_of table) (extrude_profiles ed) = map Some items" "collection = [] @ items"
      "calls s1 = calls s @ map CollectionAdd items" "printed s1 = printed s"
      "\<forall>item\<in>set items. collection_accepts k item" by blast
  from set_extent_effect[of ed ?s1] e have
    s2: "calls s2 = calls ?s1 @ side_extent_calls ed" "printed s2 = printed ?s1" by simp_all
  from items s2 s' set_start_extent_effect[of "start_extent ed" s2]
  have "map (map_of table) (extrude_profiles ed) = map Some collection
      \<and> (\<forall>item\<in>set collection. collection_accepts k item)
      \<and> calls s' = calls s @ map CollectionAdd collection
            @ [CreateInput collection (operation ed)]
            @ side_extent_calls ed @ start_extent_calls (start_extent ed) @ [AddExtrude]
      \<and> printed s' = printed s"
    by (simp add: invoke_def)
  then show ?thesis by blast
qed

lemma extrude_failure_trace:
  assumes "reconstruct_extrude_feature k ed table s = (Inl e, s')"
  shows "(\<exists>items. calls s' = calls s @ map CollectionAdd items)
     \<or> (\<exists>collection. map (map_of table) (extrude_profiles ed) = map Some collection
          \<and> (\<forall>item\<in>set collection. collection_accepts k item)
          \<and> calls s' = calls s @ map CollectionAdd collection
              @ [CreateInput collection (operation ed)] @ side_extent_calls ed)"
proof -
  obtain r1 s1 where a: "add_profiles k (extrude_profiles ed) table [] s = (r1, s1)"
    by (cases "add_profiles k (extrude_profiles ed) table [] s")
  show ?thesis
  proof (cases r1)
    case (Inl e1)
    with assms a have "s' = s1" by (simp add: reconstruct_extrude_feature_def)
    with add_profiles_effect[OF a] show ?thesis by blast
  next
    case (Inr collection)
    let ?s1 = "invoke (CreateInput collection (operation ed)) s1"
    obtain r2 s2 where x: "set_extent ed ?s1 = (r2, s2)"
      by (cases "set_extent ed ?s1")
    with assms a Inr have s': "s' = s2"
      by (cases r2) (auto simp: reconstruct_extrude_feature_def)
    from add_profiles_success[OF a[unfolded Inr]] obtain items where
      items: "map (map_of table) (extrude_profiles ed) = map Some items" "collection = [] @ items"
        "calls s1 = calls s @ map CollectionAdd items"
        "\<forall>item\<in>set items. collection_accepts k item" by blast
    from set_extent_effect[of ed ?s1] x have "calls s2 = calls ?s1 @ side_extent_calls ed"
      by simp
    with items s' have "map (map_of table) (extrude_profiles ed) = map Some collection
          \<and> (\<forall>item\<in>set collection. collection_accepts k item)
          \<and> calls s' = calls s @ map CollectionAdd collection
              @ [CreateInput collection (operation ed)] @ side_extent_calls ed"
      by (simp add: invoke_def)
    then show ?thesis by blast
  qed
qed

lemma extrude_fails_early:
  assumes "fst (add_profiles k (extrude_profiles ed) table [] s) = Inl e"
  shows "fst (reconstruct_extrude_feature k ed table s) = Inl e
     \<and> (\<exists>items. calls (snd (reconstruct_extrude_feature k ed table s))
            = calls s @ map CollectionAdd items)"
proof -
  obtain r1 s1 where a: "add_profiles k (extrude_profiles ed) table [] s = (r1, s1)"
    by (cases "add_profiles k (extrude_profiles ed) table [] s")
  with assms have r1: "r1 = Inl e" by simp
  with a have "reconstruct_extrude_feature k ed table s = (Inl e, s1)"
    by (simp add: reconstruct_extrude_feature_def)
  with add_profiles_effect[OF a] show ?thesis by simp
qed

text \<open>
  Claim C2. When a profile reference cannot be resolved, extrude reconstruction ends in an
  error, the driver stops at that entry with the same error, and neither
  \<^verbatim>\<open>createInput\<close> nor \<^verbatim>\<open>extrudes.add\<close> is invoked. The lookup of a reference that is
  absent from the table raises \<open>KeyError\<close>, so such a reference stops the extrude with
  any kernel. A reference that maps to \<^verbatim>\<open>None\<close> (the sketch found no match for it) is
  handed to the kernel's collection, which refuses a null item, and the importer stops
  there. Whenever \<^verbatim>\<open>createInput\<close> is invoked, its collection holds the table's entry
  of every reference, in order, each of them a profile of the kernel.
\<close>

theorem extrude_unresolved_profile_halts:
  "((\<exists>u\<in>set (extrude_profiles ed). map_of table u = None)
      \<longrightarrow> (\<exists>e. fst (reconstruct_extrude_feature k ed table s) = Inl e)
        \<and> (\<forall>c\<in>set (issued s (snd (reconstruct_extrude_feature k ed table s))).
              \<not> is_feature_creation c))
   \<and> (\<not> collection_accepts k None
      \<longrightarrow> ((\<exists>u\<in>set (extrude_profiles ed). map_of table u = None \<or> map_of table u = Some None)
            \<longrightarrow> (\<exists>e. fst (reconstruct_extrude_feature k ed table s) = Inl e
                    \<and> (ents (timeline_entity t) = Some (ExtrudeFeature n ed)
                        \<longrightarrow> fst (reconstruct_timeline k ents (t # rest) table s) = Inl e))
              \<and> (\<forall>c\<in>set (issued s (snd (reconstruct_extrude_feature k ed table s))).
                    \<not> is_feature_creation c))
        \<and> (\<forall>collection op.
              CreateInput collection op
                \<in> set (issued s (snd (reconstruct_extrude_feature k ed table s)))
              \<longrightarrow> (\<exists>resolved. collection = map Some resolved
                    \<and> map (map_of table) (extrude_profiles ed) = map (Some \<circ> Some) resolved)))"
proof -
  let ?R = "reconstruct_extrude_feature k ed table s"
  have halts: "(\<exists>e. fst ?R = Inl e
        \<and> (ents (timeline_entity t) = Some (ExtrudeFeature n ed)
            \<longrightarrow> fst (reconstruct_timeline k ents (t # rest) table s) = Inl e))
      \<and> (\<forall>c\<in>set (issued s (snd ?R)). \<not> is_feature_creation c)"
    if bad: "\<exists>u\<in>set (extrude_profiles ed).
        map_of table u = None \<or> (\<exists>item. map_of table u = Some item \<and> \<not> collection_accepts k item)"
  proof -
    from add_profiles_fails[OF bad] obtain e where
      a: "fst (add_profiles k (extrude_profiles ed) table [] s) = Inl e" by blast
    from extrude_fails_early[OF a] obtain items where
      e: "fst ?R = Inl e" and c: "calls (snd ?R) = calls s @ map CollectionAdd items" by blast
    from c have "issued s (snd ?R) = map CollectionAdd items" by (rule issued_append)
    then have n: "\<forall>c\<in>set (issued s (snd ?R)). \<not> is_feature_creation c" by auto
    let ?s1 = "print_line (Reconstructing n) s"
    from add_profiles_fails[OF bad] obtain e1 where
      a1: "fst (add_profiles k (extrude_profiles ed) table [] ?s1) = Inl e1" by blast
    from a a1 add_profiles_outcome[of k "extrude_profiles ed" table "[]" s ?s1]
    have "e1 = e" by simp
    with extrude_fails_early[OF a1] have "fst (reconstruct_extrude_feature k ed table ?s1) = Inl e"
      by blast
    then have "fst (reconstruct_timeline k ents (t # rest) table s) = Inl e"
      if "ents (timeline_entity t) = Some (ExtrudeFeature n ed)"
      using that by (auto simp: reconstruct_entry_def split: prod.splits sum.splits)
    with e n show ?thesis by blast
  qed
  have resolved: "\<exists>resolved. collection = map Some resolved
      \<and> map (map_of table) (extrude_profiles ed) = map (Some \<circ> Some) resolved"
    if strict: "\<not> collection_accepts k None"
      and mem: "CreateInput collection op \<in> set (issued s (snd ?R))" for collection op
  proof -
    obtain r s' where R: "?R = (r, s')" by (cases ?R)
    have nc: "CreateInput collection op \<notin> set (side_extent_calls ed)"
      "CreateInput collection op \<notin> set (start_extent_calls (start_extent ed))"
      using side_extent_calls_no_creation[of ed]
        start_extent_calls_no_creation[of "start_extent ed"] by fastforce+
    have "map (map_of table) (extrude_profiles ed) = map Some collection
          \<and> (\<forall>item\<in>set collection. collection_accepts k item)"
    proof (cases r)
      case (Inr u)
      from extrude_success_trace[OF R[unfolded Inr]] obtain coll where
        h: "map (map_of table) (extrude_profiles ed) = map Some coll"
           "\<forall>item\<in>set coll. collection_accepts k item"
           "calls s' = calls s @ map CollectionAdd coll @ [CreateInput coll (operation ed)]
              @ side_extent_calls ed @ start_extent_calls (start_extent ed) @ [AddExtrude]"
        by blast
      from h(3) have "issued s s' = map CollectionAdd coll @ [CreateInput coll (operation ed)]
              @ side_extent_calls ed @ start_extent_calls (start_extent ed) @ [AddExtrude]"
        by (rule issued_append)
      with mem R nc have "collection = coll" by auto
      with h show ?thesis by simp
    next
      case (Inl e)
      from extrude_failure_trace[OF R[unfolded Inl]] show ?thesis
      proof
        assume "\<exists>items. calls s' = calls s @ map CollectionAdd items"
        then obtain items where "calls s' = calls s @ map CollectionAdd items" by blast
        then have "issued s s' = map CollectionAdd items" by (rule issued_append)
        with mem R show ?thesis by auto
      next
        assume "\<exists>coll. map (map_of table) (extrude_profiles ed) = map Some coll
          \<and> (\<forall>item\<in>set coll. collection_accepts k item)
          \<and> calls s' = calls s @ map CollectionAdd coll
              @ [CreateInput coll (operation ed)] @ side_extent_calls ed"
        then obtain coll where
          h: "map (map_of table) (extrude_profiles ed) = map Some coll"
             "\<forall>item\<in>set coll. collection_accepts k item"
             "calls s' = calls s @ map CollectionAdd coll
                @ [CreateInput coll (operation ed)] @ side_extent_calls ed" by blast
        from h(3) have "issued s s' = map CollectionAdd coll
                @ [CreateInput coll (operation ed)] @ side_extent_calls ed"
          by (rule issued_append)
        with mem R nc have "collection = coll" by auto
        with h show ?thesis by simp
      qed
    qed
    then have m: "map (map_of table) (extrude_profiles ed) = map Some collection"
      and acc: "\<forall>item\<in>set collection. collection_accepts k item" by simp_all
    have "item \<noteq> None" if "item \<in> set collection" for item
    proof
      assume "item = None"
      with that acc have "collection_accepts k None" by blast
      with strict show False by simp
    qed
    then have "\<forall>item\<in>set collection. item \<noteq> None" by blast
    then have "collection = map Some (map the collection)"
      by (induction collection) auto
    moreover from this m have
      "map (map_of table) (extrude_profiles ed) = map (Some \<circ> Some) (map the collection)"
      by (metis map_map)
    ultimately show ?thesis by blast
  qed
  have absent: "(\<exists>e. fst ?R = Inl e) \<and> (\<forall>c\<in>set (issued s (snd ?R)). \<not> is_feature_creation c)"
    if "\<exists>u\<in>set (extrude_profiles ed). map_of table u = None"
    using halts that by blast
  have null: "(\<exists>e. fst ?R = Inl e
        \<and> (ents (timeline_entity t) = Some (ExtrudeFeature n ed)
            \<longrightarrow> fst (reconstruct_timeline k ents (t # rest) table s) = Inl e))
      \<and> (\<forall>c\<in>set (issued s (snd ?R)). \<not> is_feature_creation c)"
    if "\<not> collection_accepts k None"
      "\<exists>u\<in>set (extrude_profiles ed). map_of table u = None \<or> map_of table u = Some None"
    using halts that by blast
  from absent null resolved show ?thesis by blast
qed

theorem extrude_unresolved_profile_halts_witness:
  "\<not> collection_accepts strict_kernel None
   \<and> reconstruct_extrude_feature strict_kernel one_side_extrude [] start_state
     = (Inl (KeyError ''p1''), start_state)
   \<and> reconstruct_extrude_feature strict_kernel one_side_extrude [(''p1'', None)] start_state
     = (Inl RuntimeError, \<lparr>calls = [CollectionAdd None], printed = []\<rparr>)
   \<and> reconstruct_timeline strict_kernel sample_entities [entry ''e1'', entry ''x1'']
        [(''p1'', None)] start_state
     = (Inl RuntimeError, \<lparr>calls = [CollectionAdd None], printed = [Reconstructing ''Extrude1'']\<rparr>)
   \<and> issued start_state (snd (reconstruct_extrude_feature strict_kernel one_side_extrude
        [(''p1'', Some square_exact)] start_state))
     = [CollectionAdd (Some square_exact),
        CreateInput [Some square_exact] ''NewBodyFeatureOperation'',
        SetOneSideExtent 3 0, SetStartExtent 2, AddExtrude]
   \<and> map (map_of [(''p1'', Some square_exact)]) (extrude_profiles one_side_extrude)
     = map (Some \<circ> Some) [square_exact]"
  using extrude_unresolved_profile_halts [where ed = one_side_extrude and table = "[]"
      and k = strict_kernel and s = start_state and ents = sample_entities
      and t = "entry ''e1''" and n = "''Extrude1''" and rest = "[entry ''x1'']"]
    extrude_unresolved_profile_halts [where ed = one_side_extrude and table = "[(''p1'', None)]"
      and k = strict_kernel and s = start_state and ents = sample_entities
      and t = "entry ''e1''" and n = "''Extrude1''" and rest = "[entry ''x1'']"]
    extrude_unresolved_profile_halts [where ed = one_side_extrude
      and table = "[(''p1'', Some square_exact)]" and k = strict_kernel and s = start_state
      and ents = sample_entities and t = "entry ''e1''" and n = "''Extrude1''"
      and rest = "[entry ''x1'']"]
  by (simp add: extrude_example_defs extrude_defs example_defs sample_entities_def entry_def
      reconstruct_entry_def)

lemma extrude_outcome_start_extent:
  "fst (reconstruct_extrude_feature k (ed\<lparr>start_extent := start\<rparr>) table s)
     = fst (reconstruct_extrude_feature k ed table s)"
proof -
  have "set_extent (ed\<lparr>start_extent := start\<rparr>) = set_extent ed"
    by (rule ext) (simp add: set_extent_def split: option.splits)
  then show ?thesis
    by (simp add: reconstruct_extrude_feature_def split: prod.splits sum.splits)
qed

text \<open>
  Claim C8 states that an unhandled start-extent type is skipped with a warning. The code
  prints nothing for it: the run below, whose start extent has another type, leaves the
  console empty.
\<close>

theorem start_extent_unhandled_counterexample:
  "start_extent symmetric_extrude = OtherStartDefinition ''FromEntityStartDefinition''
   \<and> reconstruct_extrude_feature permissive_kernel symmetric_extrude
        [(''p1'', Some square_exact)] start_state
     = (Inr (), \<lparr>calls = [CollectionAdd (Some square_exact),
                          CreateInput [Some square_exact] ''NewBodyFeatureOperation'',
                          SetTwoSidesExtent 5 5 0 0, AddExtrude],
                 printed = []\<rparr>)"
  by (simp add: extrude_example_defs extrude_defs example_defs)

text \<open>
  Claim C8, amended. \<^verbatim>\<open>set_start_extent\<close> does nothing for the profile-plane start,
  assigns an offset start definition built from the offset value for an offset start, and
  does nothing at all (no kernel call, no printed line) for any other type; the start
  extent never changes whether the extrude succeeds. In a successful run the kernel calls
  are, in order: the collection, \<^verbatim>\<open>createInput\<close>, the side-extent configuration, the
  start extent, \<^verbatim>\<open>extrudes.add\<close>; nothing is printed.
\<close>

theorem start_extent_applied_last:
  "set_start_extent ProfilePlaneStartDefinition s = s
   \<and> set_start_extent (OffsetStartDefinition offset) s = invoke (SetStartExtent offset) s
   \<and> set_start_extent (OtherStartDefinition t) s = s
   \<and> fst (reconstruct_extrude_feature k (ed\<lparr>start_extent := start\<rparr>) table s)
       = fst (reconstruct_extrude_feature k ed table s)
   \<and> (reconstruct_extrude_feature k ed table s = (Inr (), s')
        \<longrightarrow> (\<exists>collection.
              issued s s' = map CollectionAdd collection
                @ [CreateInput collection (operation ed)]
                @ side_extent_calls ed
                @ (case start_extent ed of
                     OffsetStartDefinition offset \<Rightarrow> [SetStartExtent offset]
                   | ProfilePlaneStartDefinition \<Rightarrow> []
                   | OtherStartDefinition t \<Rightarrow> [])
                @ [AddExtrude])
          \<and> printed s' = printed s)"
proof -
  have sec: "start_extent_calls st =
      (case st of OffsetStartDefinition offset \<Rightarrow> [SetStartExtent offset]
                | ProfilePlaneStartDefinition \<Rightarrow> [] | OtherStartDefinition t \<Rightarrow> [])" for st
    by (cases st) (simp_all add: start_extent_calls_def set_start_extent_def invoke_def)
  have tr: "(\<exists>collection.
              issued s s' = map CollectionAdd collection
                @ [CreateInput collection (operation ed)]
                @ side_extent_calls ed
                @ (case start_extent ed of
                     OffsetStartDefinition offset \<Rightarrow> [SetStartExtent offset]
                   | ProfilePlaneStartDefinition \<Rightarrow> []
                   | OtherStartDefinition t \<Rightarrow> [])
                @ [AddExtrude])
          \<and> printed s' = printed s"
    if ok: "reconstruct_extrude_feature k ed table s = (Inr (), s')"
  proof -
    from extrude_success_trace[OF ok] obtain coll where
      h: "calls s' = calls s @ map CollectionAdd coll @ [CreateInput coll (operation ed)]
            @ side_extent_calls ed @ start_extent_calls (start_extent ed) @ [AddExtrude]"
         "printed s' = printed s" by blast
    from h(1) have "issued s s' = map CollectionAdd coll @ [CreateInput coll (operation ed)]
            @ side_extent_calls ed @ start_extent_calls (start_extent ed) @ [AddExtrude]"
      by (rule issued_append)
    with h(2) show ?thesis unfolding sec by blast
  qed
  have a: "set_start_extent ProfilePlaneStartDefinition s = s"
    and b: "set_start_extent (OffsetStartDefinition offset) s = invoke (SetStartExtent offset) s"
    and c: "set_start_extent (OtherStartDefinition t) s = s"
    by (simp_all add: set_start_extent_def)
  from a b c extrude_outcome_start_extent tr show ?thesis by blast
qed

theorem start_extent_applied_last_witness:
  "reconstruct_extrude_feature permissive_kernel one_side_extrude
        [(''p1'', Some square_exact)] start_state
     = (Inr (), \<lparr>calls = [CollectionAdd (Some square_exact),
                          CreateInput [Some square_exact] ''NewBodyFeatureOperation'',
                          SetOneSideExtent 3 0, SetStartExtent 2, AddExtrude],
                 printed = []\<rparr>)
   \<and> side_extent_calls one_side_extrude = [SetOneSideExtent 3 0]"
  using start_extent_applied_last [where s = start_state and k = permissive_kernel
      and ed = one_side_extrude and table = "[(''p1'', Some square_exact)]"
      and s' = "\<lparr>calls = [CollectionAdd (Some square_exact),
                          CreateInput [Some square_exact] ''NewBodyFeatureOperation'',
                          SetOneSideExtent 3 0, SetStartExtent 2, AddExtrude],
                 printed = []\<rparr>"]
  by (simp add: extrude_example_defs extrude_defs example_defs side_extent_calls_def)

section \<open>Properties of the sketch reconstructor\<close>

lemmas sketch_example_defs = origin_def unit_x_def sample_curves_def sample_points_def
  placeholder_sketch_def blank_sketch_def sample_sketch_def
  sample_entities_def entry_def

lemmas sketch_defs = reconstruct_sketch_def reconstruct_curves_def reconstruct_sketch_curve_def
  reconstruct_sketch_line_def reconstruct_sketch_arc_def reconstruct_sketch_circle_def
  invoke_def print_line_def issued_def

lemma tagged_append: "tagged (xs @ ys) = tagged xs @ tagged ys"
  by (induction xs rule: tagged.induct) simp_all

lemma sketch_curve_skipped:
  "\<not> materialized (u, c) \<Longrightarrow>
     reconstruct_sketch_curve u c pts s = (Inr (), s\<lparr>printed := printed s @ warnings [(u, c)]\<rparr>)"
  by (cases "curve_type c")
     (simp_all add: materialized_def reconstruct_sketch_curve_def print_line_def)

lemma sketch_curve_materialized:
  assumes "materialized (u, c)"
    and "\<forall>p\<in>set (referenced_points (curve_type c)). map_of pts p \<noteq> None"
  shows "\<exists>creation. is_curve_creation creation
     \<and> reconstruct_sketch_curve u c pts s
         = (Inr (), s\<lparr>calls := calls s @ [creation, SetCustomUuid u]\<rparr>)
     \<and> warnings [(u, c)] = []"
proof (cases "curve_type c")
  case (SketchLine sp ep)
  with assms obtain p q where "map_of pts sp = Some p" "map_of pts ep = Some q" by auto
  with assms SketchLine have "is_curve_creation (AddByTwoPoints p q)
     \<and> reconstruct_sketch_curve u c pts s
         = (Inr (), s\<lparr>calls := calls s @ [AddByTwoPoints p q, SetCustomUuid u]\<rparr>)
     \<and> warnings [(u, c)] = []"
    by (simp add: materialized_def reconstruct_sketch_curve_def reconstruct_sketch_line_def invoke_def)
  then show ?thesis by blast
next
  case (SketchArc sp cp sa ea)
  with assms obtain p q where "map_of pts sp = Some p" "map_of pts cp = Some q" by auto
  with assms SketchArc have "is_curve_creation (AddByCenterStartSweep q p (ea - sa))
     \<and> reconstruct_sketch_curve u c pts s
         = (Inr (), s\<lparr>calls := calls s @ [AddByCenterStartSweep q p (ea - sa), SetCustomUuid u]\<rparr>)
     \<and> warnings [(u, c)] = []"
    by (simp add: materialized_def reconstruct_sketch_curve_def reconstruct_sketch_arc_def invoke_def)
  then show ?thesis by blast
next
  case (SketchCircle cp r)
  with assms obtain q where "map_of pts cp = Some q" by auto
  with assms SketchCircle have "is_curve_creation (AddByCenterRadius q r)
     \<and> reconstruct_sketch_curve u c pts s
         = (Inr (), s\<lparr>calls := calls s @ [AddByCenterRadius q r, SetCustomUuid u]\<rparr>)
     \<and> warnings [(u, c)] = []"
    by (simp add: materialized_def reconstruct_sketch_curve_def reconstruct_sketch_circle_def invoke_def)
  then show ?thesis by blast
next
  case (UnsupportedCurve t)
  with assms show ?thesis by (simp add: materialized_def)
qed

lemma warnings_Cons: "warnings (x # rest) = warnings [x] @ warnings rest"
  by (cases x) simp

lemma sketch_curves_run:
  "points_present pts cs \<Longrightarrow>
     \<exists>cl. reconstruct_sketch_curves cs pts s
            = (Inr (), s\<lparr>calls := calls s @ cl, printed := printed s @ warnings cs\<rparr>)
       \<and> tagged cl = map fst (filter materialized cs)
       \<and> length (filter is_curve_creation cl) = length (filter materialized cs)
       \<and> length cl = 2 * length (filter materialized cs)"
proof (induction cs arbitrary: s)
  case Nil
  have "reconstruct_sketch_curves [] pts s
            = (Inr (), s\<lparr>calls := calls s @ [], printed := printed s @ warnings []\<rparr>)
       \<and> tagged [] = map fst (filter materialized [])
       \<and> length (filter is_curve_creation []) = length (filter materialized [])
       \<and> length ([] :: kernel_call list) = 2 * length (filter materialized [])" by simp
  then show ?case by blast
next
  case (Cons x cs)
  obtain u c where x: "x = (u, c)" by (cases x)
  from Cons.prems have rest: "points_present pts cs"
    by (simp add: points_present_def)
  show ?case
  proof (cases "materialized (u, c)")
    case False
    let ?s1 = "s\<lparr>printed := printed s @ warnings [(u, c)]\<rparr>"
    from Cons.IH[OF rest, of ?s1] obtain cl where
      h: "reconstruct_sketch_curves cs pts ?s1
            = (Inr (), ?s1\<lparr>calls := calls ?s1 @ cl, printed := printed ?s1 @ warnings cs\<rparr>)"
         "tagged cl = map fst (filter materialized cs)"
         "length (filter is_curve_creation cl) = length (filter materialized cs)"
         "length cl = 2 * length (filter materialized cs)" by blast
    from h False x sketch_curve_skipped[OF False, of pts s]
    have "reconstruct_sketch_curves (x # cs) pts s
            = (Inr (), s\<lparr>calls := calls s @ cl, printed := printed s @ warnings (x # cs)\<rparr>)
       \<and> tagged cl = map fst (filter materialized (x # cs))
       \<and> length (filter is_curve_creation cl) = length (filter materialized (x # cs))
       \<and> length cl = 2 * length (filter materialized (x # cs))"
      by (simp add: warnings_Cons[of "(u, c)" cs])
    then show ?thesis by blast
  next
    case True
    with Cons.prems x have "\<forall>p\<in>set (referenced_points (curve_type c)). map_of pts p \<noteq> None"
      by (simp add: points_present_def)
    from sketch_curve_materialized[OF True this, of s] obtain creation where
      c: "is_curve_creation creation"
         "reconstruct_sketch_curve u c pts s
            = (Inr (), s\<lparr>calls := calls s @ [creation, SetCustomUuid u]\<rparr>)"
         "warnings [(u, c)] = []" by blast
    let ?s1 = "s\<lparr>calls := calls s @ [creation, SetCustomUuid u]\<rparr>"
    from Cons.IH[OF rest, of ?s1] obtain cl where
      h: "reconstruct_sketch_curves cs pts ?s1
            = (Inr (), ?s1\<lparr>calls := calls ?s1 @ cl, printed := printed ?s1 @ warnings cs\<rparr>)"
         "tagged cl = map fst (filter materialized cs)"
         "length (filter is_curve_creation cl) = length (filter materialized cs)"
         "length cl = 2 * length (filter materialized cs)" by blast
    from h c True x
    have "reconstruct_sketch_curves (x # cs) pts s
            = (Inr (), s\<lparr>calls := calls s @ ([creation, SetCustomUuid u] @ cl),
                          printed := printed s @ warnings (x # cs)\<rparr>)
       \<and> tagged ([creation, SetCustomUuid u] @ cl) = map fst (filter materialized (x # cs))
       \<and> length (filter is_curve_creation ([creation, SetCustomUuid u] @ cl))
           = length (filter materialized (x # cs))
       \<and> length ([creation, SetCustomUuid u] @ cl) = 2 * length (filter materialized (x # cs))"
      by (cases creation) (simp_all add: warnings_Cons[of "(u, c)" cs])
    then show ?thesis by blast
  qed
qed

lemma sketch_curve_any:
  "\<exists>cl. calls (snd (reconstruct_sketch_curve u c pts s)) = calls s @ cl
     \<and> (case fst (reconstruct_sketch_curve u c pts s) of
          Inr v \<Rightarrow> tagged cl = (if materialized (u, c) then [u] else [])
        | Inl e \<Rightarrow> cl = [] \<and> materialized (u, c))"
proof (cases "materialized (u, c)")
  case False
  from sketch_curve_skipped[OF False, of pts s] False
  have "calls (snd (reconstruct_sketch_curve u c pts s)) = calls s @ []
     \<and> (case fst (reconstruct_sketch_curve u c pts s) of
          Inr v \<Rightarrow> tagged [] = (if materialized (u, c) then [u] else [])
        | Inl e \<Rightarrow> [] = ([] :: kernel_call list) \<and> materialized (u, c))"
    by simp
  then show ?thesis by blast
next
  case True
  show ?thesis
  proof (cases "\<forall>p\<in>set (referenced_points (curve_type c)). map_of pts p \<noteq> None")
    case present: True
    from sketch_curve_materialized[OF True present, of s] obtain creation where
      c: "is_curve_creation creation"
         "reconstruct_sketch_curve u c pts s
            = (Inr (), s\<lparr>calls := calls s @ [creation, SetCustomUuid u]\<rparr>)" by blast
    with True have "calls (snd (reconstruct_sketch_curve u c pts s))
        = calls s @ [creation, SetCustomUuid u]
     \<and> (case fst (reconstruct_sketch_curve u c pts s) of
          Inr v \<Rightarrow> tagged [creation, SetCustomUuid u] = (if materialized (u, c) then [u] else [])
        | Inl e \<Rightarrow> [creation, SetCustomUuid u] = [] \<and> materialized (u, c))"
      by (cases creation) simp_all
    then show ?thesis by blast
  next
    case absent: False
    with True have "calls (snd (reconstruct_sketch_curve u c pts s)) = calls s @ []
     \<and> (case fst (reconstruct_sketch_curve u c pts s) of
          Inr v \<Rightarrow> tagged [] = (if materialized (u, c) then [u] else [])
        | Inl e \<Rightarrow> [] = ([] :: kernel_call list) \<and> materialized (u, c))"
      by (cases "curve_type c")
         (auto simp: materialized_def reconstruct_sketch_curve_def reconstruct_sketch_line_def
            reconstruct_sketch_arc_def reconstruct_sketch_circle_def split: option.splits)
    then show ?thesis by blast
  qed
qed

lemma sketch_curves_any:
  "\<exists>cl rest. calls (snd (reconstruct_sketch_curves cs pts s)) = calls s @ cl
     \<and> map fst (filter materialized cs) = tagged cl @ rest"
proof (induction cs arbitrary: s)
  case Nil
  have "calls (snd (reconstruct_sketch_curves [] pts s)) = calls s @ []
     \<and> map fst (filter materialized []) = tagged [] @ []" by simp
  then show ?case by blast
next
  case (Cons x cs)
  obtain u c where x: "x = (u, c)" by (cases x)
  obtain r s1 where step: "reconstruct_sketch_curve u c pts s = (r, s1)"
    by (cases "reconstruct_sketch_curve u c pts s")
  from sketch_curve_any[of u c pts s] step obtain cl1 where
    c1: "calls s1 = calls s @ cl1"
        "case r of Inr v \<Rightarrow> tagged cl1 = (if materialized (u, c) then [u] else [])
                 | Inl e \<Rightarrow> cl1 = [] \<and> materialized (u, c)" by auto
  show ?case
  proof (cases r)
    case (Inl e)
    with c1 x step have "calls (snd (reconstruct_sketch_curves (x # cs) pts s)) = calls s @ []
       \<and> map fst (filter materialized (x # cs))
           = tagged [] @ map fst (filter materialized (x # cs))" by simp
    then show ?thesis by blast
  next
    case (Inr v)
    from Cons.IH[of s1] obtain cl rest where
      ih: "calls (snd (reconstruct_sketch_curves cs pts s1)) = calls s1 @ cl"
          "map fst (filter materialized cs) = tagged cl @ rest" by blast
    with Inr c1 x step have "calls (snd (reconstruct_sketch_curves (x # cs) pts s))
          = calls s @ (cl1 @ cl)
       \<and> map fst (filter materialized (x # cs)) = tagged (cl1 @ cl) @ rest"
      by (simp add: tagged_append)
    then show ?thesis by blast
  qed
qed

text \<open>
  Claim C7. Provided every point that a materialized curve refers to is in the sketch's
  point mapping, \<^verbatim>\<open>reconstruct_sketch_curves\<close> raises nothing, and the identifiers it
  attaches are, in order, exactly those of the curves whose construction flag is false and
  whose type is \<^verbatim>\<open>SketchLine\<close>, \<^verbatim>\<open>SketchArc\<close> or \<^verbatim>\<open>SketchCircle\<close>, each after
  one creation call. A construction curve causes no call and no output (its points are not
  even looked up); a curve of another type causes no call and one printed line. Whatever
  the points are, the identifiers attached are an initial part of that list: no other
  curve is ever materialized.
\<close>

theorem sketch_curves_materialized:
  "(points_present pts cs \<longrightarrow>
     fst (reconstruct_sketch_curves cs pts s) = Inr ()
     \<and> tagged (issued s (snd (reconstruct_sketch_curves cs pts s)))
         = map fst (filter materialized cs)
     \<and> length (filter is_curve_creation (issued s (snd (reconstruct_sketch_curves cs pts s))))
         = length (filter materialized cs)
     \<and> length (issued s (snd (reconstruct_sketch_curves cs pts s)))
         = 2 * length (filter materialized cs)
     \<and> printed (snd (reconstruct_sketch_curves cs pts s)) = printed s @ warnings cs)
   \<and> (\<exists>rest. map fst (filter materialized cs)
          = tagged (issued s (snd (reconstruct_sketch_curves cs pts s))) @ rest)"
proof (rule conjI)
  show "points_present pts cs \<longrightarrow>
     fst (reconstruct_sketch_curves cs pts s) = Inr ()
     \<and> tagged (issued s (snd (reconstruct_sketch_curves cs pts s)))
         = map fst (filter materialized cs)
     \<and> length (filter is_curve_creation (issued s (snd (reconstruct_sketch_curves cs pts s))))
         = length (filter materialized cs)
     \<and> length (issued s (snd (reconstruct_sketch_curves cs pts s)))
         = 2 * length (filter materialized cs)
     \<and> printed (snd (reconstruct_sketch_curves cs pts s)) = printed s @ warnings cs"
  proof
    assume "points_present pts cs"
    from sketch_curves_run[OF this, of s] obtain cl where
      h: "reconstruct_sketch_curves cs pts s
            = (Inr (), s\<lparr>calls := calls s @ cl, printed := printed s @ warnings cs\<rparr>)"
         "tagged cl = map fst (filter materialized cs)"
         "length (filter is_curve_creation cl) = length (filter materialized cs)"
         "length cl = 2 * length (filter materialized cs)" by blast
    have "issued s (s\<lparr>calls := calls s @ cl, printed := printed s @ warnings cs\<rparr>) = cl"
      by (simp add: issued_def)
    with h show "fst (reconstruct_sketch_curves cs pts s) = Inr ()
     \<and> tagged (issued s (snd (reconstruct_sketch_curves cs pts s)))
         = map fst (filter materialized cs)
     \<and> length (filter is_curve_creation (issued s (snd (reconstruct_sketch_curves cs pts s))))
         = length (filter materialized cs)
     \<and> length (issued s (snd (reconstruct_sketch_curves cs pts s)))
         = 2 * length (filter materialized cs)
     \<and> printed (snd (reconstruct_sketch_curves cs pts s)) = printed s @ warnings cs"
      by simp
  qed
  from sketch_curves_any[of cs pts s] obtain cl rest where
    a: "calls (snd (reconstruct_sketch_curves cs pts s)) = calls s @ cl"
       "map fst (filter materialized cs) = tagged cl @ rest" by blast
  from a(1) have "issued s (snd (reconstruct_sketch_curves cs pts s)) = cl"
    by (rule issued_append)
  with a(2) show "\<exists>rest. map fst (filter materialized cs)
          = tagged (issued s (snd (reconstruct_sketch_curves cs pts s))) @ rest" by blast
qed

theorem sketch_curves_materialized_witness:
  "points_present sample_points sample_curves
   \<and> reconstruct_sketch_curves sample_curves sample_points start_state
       = (Inr (), \<lparr>calls = [AddByTwoPoints origin unit_x, SetCustomUuid ''L1'',
                            AddByCenterRadius origin 2, SetCustomUuid ''C1'',
                            AddByCenterStartSweep origin unit_x 2, SetCustomUuid ''A1''],
                   printed = [UnsupportedCurveType ''SketchEllipse'']\<rparr>)
   \<and> map fst (filter materialized sample_curves) = [''L1'', ''C1'', ''A1'']"
proof -
  have h: "points_present sample_points sample_curves"
    by (simp add: points_present_def materialized_def sketch_example_defs)
  from sketch_curves_materialized[of sample_points sample_curves start_state] h show ?thesis
    by (simp add: sketch_example_defs sketch_defs materialized_def start_state_def)
qed

lemma find_profile_result:
  "fst (find_profile candidates pid d s) = first_matching (get_curve_uuids d) d candidates"
  by (simp add: find_profile_def Let_def split: option.splits)

lemma find_profile_calls: "calls (snd (find_profile candidates pid d s)) = calls s"
  by (simp add: find_profile_def Let_def print_line_def split: option.splits)

lemma dict_update_conv:
  "distinct (map fst other) \<Longrightarrow> map_of (dict_update d other) = map_of d ++ map_of other"
proof (induction other arbitrary: d)
  case Nil
  then show ?case by simp
next
  case (Cons x other)
  obtain k v where x: "x = (k, v)" by (cases x)
  with Cons.prems have notin: "k \<notin> fst ` set other" and dist: "distinct (map fst other)"
    by auto
  from notin have none: "map_of other k = None" by (simp add: map_of_eq_None_iff)
  have "map_of (dict_update d (x # other)) = map_of (AList.update k v d) ++ map_of other"
    using x Cons.IH[OF dist] by simp
  also have "\<dots> = (map_of d)(k \<mapsto> v) ++ map_of other"
    by (simp add: update_conv')
  also have "\<dots> = map_of d ++ map_of (x # other)"
    using x none by (auto simp: fun_eq_iff map_add_def split: option.splits)
  finally show ?case .
qed

lemma dict_update_keys: "fst ` set (dict_update d other) = fst ` set d \<union> fst ` set other"
proof (induction other arbitrary: d)
  case Nil
  then show ?case by simp
next
  case (Cons x other)
  obtain k v where x: "x = (k, v)" by (cases x)
  with Cons.IH[of "AList.update k v d"] show ?case by (auto simp: dom_update)
qed

lemma find_profiles_run:
  "find_profiles k ps m s = (m', s') \<Longrightarrow>
     calls s' = calls s \<and> fst ` set m' = fst ` set m \<union> fst ` set ps
     \<and> (distinct (map fst m) \<longrightarrow> distinct (map fst m'))
     \<and> (\<forall>pid. pid \<notin> fst ` set ps \<longrightarrow> map_of m' pid = map_of m pid)
     \<and> (distinct (map fst ps) \<longrightarrow>
          (\<forall>(pid, d)\<in>set ps.
             map_of m' pid
               = Some (first_matching (get_curve_uuids d) d (sketch_profiles_of k (calls s)))))"
proof (induction ps arbitrary: m s)
  case Nil
  then show ?case by simp
next
  case (Cons x ps)
  obtain pid d where x: "x = (pid, d)" by (cases x)
  let ?c = "sketch_profiles_of k (calls s)"
  obtain r s1 where f: "find_profile ?c pid d s = (r, s1)" by (cases "find_profile ?c pid d s")
  from f find_profile_result[of ?c pid d s] have r: "r = first_matching (get_curve_uuids d) d ?c"
    by simp
  from f find_profile_calls[of ?c pid d s] have s1: "calls s1 = calls s" by simp
  let ?m1 = "AList.update pid r m"
  from Cons.prems x f have "find_profiles k ps ?m1 s1 = (m', s')" by simp
  from Cons.IH[OF this] have
    ih: "calls s' = calls s1" "fst ` set m' = fst ` set ?m1 \<union> fst ` set ps"
      "distinct (map fst ?m1) \<longrightarrow> distinct (map fst m')"
      "\<forall>q. q \<notin> fst ` set ps \<longrightarrow> map_of m' q = map_of ?m1 q"
      "distinct (map fst ps) \<longrightarrow>
          (\<forall>(q, e)\<in>set ps.
             map_of m' q
               = Some (first_matching (get_curve_uuids e) e (sketch_profiles_of k (calls s1))))"
    by blast+
  have a: "calls s' = calls s" using ih(1) s1 by simp
  have b: "fst ` set m' = fst ` set m \<union> fst ` set (x # ps)"
    using ih(2) x by (auto simp: dom_update)
  have c: "distinct (map fst m) \<longrightarrow> distinct (map fst m')"
    using ih(3) by (simp add: distinct_update)
  have d: "\<forall>q. q \<notin> fst ` set (x # ps) \<longrightarrow> map_of m' q = map_of m q"
    using ih(4) x by (auto simp: update_conv')
  have e: "distinct (map fst (x # ps)) \<longrightarrow>
          (\<forall>(q, e)\<in>set (x # ps).
             map_of m' q
               = Some (first_matching (get_curve_uuids e) e (sketch_profiles_of k (calls s))))"
  proof
    assume dist: "distinct (map fst (x # ps))"
    with x have notin: "pid \<notin> fst ` set ps" and dps: "distinct (map fst ps)" by auto
    from ih(4) notin have "map_of m' pid = Some r" by (simp add: update_conv')
    with r ih(5) dps s1 x show "\<forall>(q, e)\<in>set (x # ps).
             map_of m' q
               = Some (first_matching (get_curve_uuids e) e (sketch_profiles_of k (calls s)))"
      by auto
  qed
  from a b c d e show ?case by blast
qed

lemma find_profiles_start:
  "find_profiles k ps [] s = (m', s') \<Longrightarrow>
     calls s' = calls s \<and> fst ` set m' = fst ` set ps \<and> distinct (map fst m')
     \<and> (distinct (map fst ps) \<longrightarrow>
          (\<forall>(pid, d)\<in>set ps.
             map_of m' pid
               = Some (first_matching (get_curve_uuids d) d (sketch_profiles_of k (calls s)))))"
  using find_profiles_run[of k ps "[]" s m' s'] by (simp del: map_of_eq_Some_iff)

lemma reconstruct_sketch_run:
  assumes cs: "curves sd = Some cs" and pp: "points_present (points sd) cs"
  shows "\<exists>m s' cl. reconstruct_sketch k sd s = (Inr (Some m), s')
     \<and> calls s' = calls s @ [AddWithoutEdges, SetTransform (transform sd),
                               SetIsComputeDeferred True] @ cl @ [SetIsComputeDeferred False]
     \<and> tagged cl = map fst (filter materialized cs)
     \<and> length (filter is_curve_creation cl) = length (filter materialized cs)
     \<and> length cl = 2 * length (filter materialized cs)
     \<and> fst ` set m = fst ` set (profiles sd)
     \<and> distinct (map fst m)
     \<and> (distinct (map fst (profiles sd)) \<longrightarrow>
          (\<forall>(pid, d)\<in>set (profiles sd).
             map_of m pid
               = Some (first_matching (get_curve_uuids d) d (sketch_profiles_of k (calls s')))))"
proof -
  let ?s2 = "invoke (SetIsComputeDeferred True)
     (print_line (Counts (length (points sd)) (length cs))
       (invoke (SetTransform (transform sd)) (invoke AddWithoutEdges s)))"
  from sketch_curves_run[OF pp, of ?s2] obtain cl where
    h: "reconstruct_sketch_curves cs (points sd) ?s2
            = (Inr (), ?s2\<lparr>calls := calls ?s2 @ cl, printed := printed ?s2 @ warnings cs\<rparr>)"
       "tagged cl = map fst (filter materialized cs)"
       "length (filter is_curve_creation cl) = length (filter materialized cs)"
       "length cl = 2 * length (filter materialized cs)" by blast
  let ?s3 = "?s2\<lparr>calls := calls ?s2 @ cl, printed := printed ?s2 @ warnings cs\<rparr>"
  let ?s4 = "invoke (SetIsComputeDeferred False) ?s3"
  obtain m s' where f: "find_profiles k (profiles sd) [] ?s4 = (m, s')"
    by (cases "find_profiles k (profiles sd) [] ?s4")
  note fr0 = find_profiles_start[OF f]
  note fr = fr0[THEN conjunct1] fr0[THEN conjunct2, THEN conjunct1]
    fr0[THEN conjunct2, THEN conjunct2, THEN conjunct1]
    fr0[THEN conjunct2, THEN conjunct2, THEN conjunct2]
  from cs h(1) f have run: "reconstruct_sketch k sd s = (Inr (Some m), s')"
    by (simp add: reconstruct_sketch_def reconstruct_curves_def Let_def)
  have c4: "calls ?s4 = calls s @ [AddWithoutEdges, SetTransform (transform sd),
                               SetIsComputeDeferred True] @ cl @ [SetIsComputeDeferred False]"
    by (simp add: invoke_def print_line_def)
  from run fr c4 h(2,3,4) have "reconstruct_sketch k sd s = (Inr (Some m), s')
     \<and> calls s' = calls s @ [AddWithoutEdges, SetTransform (transform sd),
                               SetIsComputeDeferred True] @ cl @ [SetIsComputeDeferred False]
     \<and> tagged cl = map fst (filter materialized cs)
     \<and> length (filter is_curve_creation cl) = length (filter materialized cs)
     \<and> length cl = 2 * length (filter materialized cs)
     \<and> fst ` set m = fst ` set (profiles sd)
     \<and> distinct (map fst m)
     \<and> (distinct (map fst (profiles sd)) \<longrightarrow>
          (\<forall>(pid, d)\<in>set (profiles sd).
             map_of m pid
               = Some (first_matching (get_curve_uuids d) d (sketch_profiles_of k (calls s')))))"
    by (simp del: map_of_eq_Some_iff)
  then show ?thesis by blast
qed

lemma reconstruct_entry_sketch:
  assumes "ents (timeline_entity t) = Some (Sketch n sd)"
    and "reconstruct_sketch k sd (print_line (Reconstructing n) s) = (Inr (Some m), s')"
  shows "reconstruct_entry k ents t table s = (Inr (dict_update table m), s')"
  using assms by (cases m) (simp_all add: reconstruct_entry_def)

text \<open>
  Claim C6. A record without the \<^verbatim>\<open>curves\<close> key yields \<^verbatim>\<open>None\<close> and no kernel call
  at all. A well-formed record whose curve mapping is empty yields the empty profile
  mapping (a profile is bounded by curves of its sketch, so the record has no profile),
  and the only kernel calls are the sketch creation, its transform and the two switches of
  the deferred computation: no curve is created. The profile loop of
  \<^verbatim>\<open>reconstruct_curves\<close> runs over the recorded profiles whatever the curves are, so
  for any record with an empty curve mapping the keys returned are the record's profile
  identifiers, and the kernel calls are the same four.
\<close>

theorem sketch_without_curves:
  "(curves sd = None \<longrightarrow> reconstruct_sketch k sd s = (Inr None, s))
   \<and> (curves sd = Some [] \<and> profiles_well_formed sd \<longrightarrow>
        reconstruct_sketch k sd s
          = (Inr (Some []),
             s\<lparr>calls := calls s @ [AddWithoutEdges, SetTransform (transform sd),
                                   SetIsComputeDeferred True, SetIsComputeDeferred False],
               printed := printed s @ [Counts (length (points sd)) 0]\<rparr>))
   \<and> (curves sd = Some [] \<longrightarrow>
        (\<exists>m s'. reconstruct_sketch k sd s = (Inr (Some m), s')
           \<and> fst ` set m = fst ` set (profiles sd)
           \<and> issued s s' = [AddWithoutEdges, SetTransform (transform sd),
                             SetIsComputeDeferred True, SetIsComputeDeferred False]))"
proof -
  have none: "reconstruct_sketch k sd s = (Inr None, s)" if "curves sd = None"
    using that by (simp add: reconstruct_sketch_def)
  have zero: "\<exists>m s'. reconstruct_sketch k sd s = (Inr (Some m), s')
           \<and> fst ` set m = fst ` set (profiles sd)
           \<and> issued s s' = [AddWithoutEdges, SetTransform (transform sd),
                             SetIsComputeDeferred True, SetIsComputeDeferred False]"
    if z: "curves sd = Some []"
  proof -
    have pp: "points_present (points sd) []" by (simp add: points_present_def)
    from reconstruct_sketch_run[OF z pp, of k s] obtain m s' cl where
      h: "reconstruct_sketch k sd s = (Inr (Some m), s')"
         "calls s' = calls s @ [AddWithoutEdges, SetTransform (transform sd),
                               SetIsComputeDeferred True] @ cl @ [SetIsComputeDeferred False]"
         "length cl = 2 * length (filter materialized ([] :: (uuid \<times> curve_data) list))"
         "fst ` set m = fst ` set (profiles sd)" by blast
    from h(3) have "cl = []" by simp
    with h(2) have "calls s' = calls s @ [AddWithoutEdges, SetTransform (transform sd),
                      SetIsComputeDeferred True, SetIsComputeDeferred False]" by simp
    then have "issued s s' = [AddWithoutEdges, SetTransform (transform sd),
                      SetIsComputeDeferred True, SetIsComputeDeferred False]"
      by (rule issued_append)
    with h(1,4) show ?thesis by blast
  qed
  have both: "reconstruct_sketch k sd s
          = (Inr (Some []),
             s\<lparr>calls := calls s @ [AddWithoutEdges, SetTransform (transform sd),
                                   SetIsComputeDeferred True, SetIsComputeDeferred False],
               printed := printed s @ [Counts (length (points sd)) 0]\<rparr>)"
    if w: "curves sd = Some [] \<and> profiles_well_formed sd"
  proof -
    have "profiles sd = []"
    proof (cases "profiles sd")
      case Nil
      then show ?thesis .
    next
      case (Cons entry rest)
      from w have z: "curves sd = Some []" and wf: "profiles_well_formed sd" by simp_all
      from Cons have mem: "entry \<in> set (profiles sd)" by simp
      from wf mem have a: "get_curve_uuids (snd entry) \<noteq> []"
        and b: "\<forall>c\<in>set (get_curve_uuids (snd entry)).
            c \<in> fst ` set (case curves sd of None \<Rightarrow> [] | Some curves_data \<Rightarrow> curves_data)"
        unfolding profiles_well_formed_def by blast+
      from b have "set (get_curve_uuids (snd entry)) = {}" unfolding z by auto
      with a show ?thesis by simp
    qed
    with w show ?thesis
      by (simp add: reconstruct_sketch_def reconstruct_curves_def Let_def invoke_def
          print_line_def)
  qed
  from none zero both show ?thesis by blast
qed

theorem sketch_without_curves_witness:
  "curves placeholder_sketch = None
   \<and> reconstruct_sketch strict_kernel placeholder_sketch start_state = (Inr None, start_state)
   \<and> curves blank_sketch = Some [] \<and> profiles_well_formed blank_sketch
   \<and> reconstruct_sketch strict_kernel blank_sketch start_state
       = (Inr (Some []),
          \<lparr>calls = [AddWithoutEdges, SetTransform [], SetIsComputeDeferred True,
                    SetIsComputeDeferred False],
            printed = [Counts 0 0]\<rparr>)"
  using sketch_without_curves [where sd = placeholder_sketch and k = strict_kernel
      and s = start_state]
    sketch_without_curves [where sd = blank_sketch and k = strict_kernel and s = start_state]
  by (simp add: sketch_example_defs start_state_def profiles_well_formed_def)

text \<open>
  Claim C10. For a sketch record that carries curves (its referenced points present, its
  profile keys distinct as the keys of a dictionary are), \<^verbatim>\<open>reconstruct_sketch\<close>
  returns a mapping whose key set is exactly the record's profile identifiers, each mapped
  to what \<^verbatim>\<open>find_profile\<close> returned for it, \<^verbatim>\<open>None\<close> included. The driver's table
  after the sketch is the old table overwritten with that mapping, so an unmatched profile
  identifier is present in the table with the value \<^verbatim>\<open>None\<close>.
\<close>

theorem sketch_profile_mapping_keys:
  assumes "curves sd = Some cs"
    and "points_present (points sd) cs"
    and "distinct (map fst (profiles sd))"
  shows "(\<exists>m s'. reconstruct_sketch k sd s = (Inr (Some m), s')
           \<and> fst ` set m = fst ` set (profiles sd)
           \<and> (\<forall>(pid, d)\<in>set (profiles sd).
                 map_of m pid
                   = Some (fst (find_profile (sketch_profiles_of k (calls s')) pid d s'))))
    \<and> (\<forall>ents t table n. ents (timeline_entity t) = Some (Sketch n sd) \<longrightarrow>
          (\<exists>m s' table'.
             reconstruct_sketch k sd (print_line (Reconstructing n) s) = (Inr (Some m), s')
             \<and> reconstruct_entry k ents t table s = (Inr table', s')
             \<and> map_of table' = map_of table ++ map_of m
             \<and> fst ` set table' = fst ` set table \<union> fst ` set (profiles sd)
             \<and> (\<forall>pid. map_of m pid = Some None \<longrightarrow> map_of table' pid = Some None)))"
proof (rule conjI)
  have run: "\<exists>m s'. reconstruct_sketch k sd s0 = (Inr (Some m), s')
           \<and> fst ` set m = fst ` set (profiles sd) \<and> distinct (map fst m)
           \<and> (\<forall>(pid, d)\<in>set (profiles sd).
                 map_of m pid
                   = Some (fst (find_profile (sketch_profiles_of k (calls s')) pid d s')))"
    for s0
  proof -
    from reconstruct_sketch_run[OF assms(1,2), of k s0] obtain m s' where
      h: "reconstruct_sketch k sd s0 = (Inr (Some m), s')"
         "fst ` set m = fst ` set (profiles sd)" "distinct (map fst m)"
         "distinct (map fst (profiles sd)) \<longrightarrow>
          (\<forall>(pid, d)\<in>set (profiles sd).
             map_of m pid
               = Some (first_matching (get_curve_uuids d) d (sketch_profiles_of k (calls s'))))"
      by blast
    from h(4) assms(3) have "\<forall>(pid, d)\<in>set (profiles sd).
             map_of m pid
               = Some (first_matching (get_curve_uuids d) d (sketch_profiles_of k (calls s')))"
      by (rule mp)
    then have "\<forall>(pid, d)\<in>set (profiles sd).
             map_of m pid
               = Some (fst (find_profile (sketch_profiles_of k (calls s')) pid d s'))"
      by (simp only: find_profile_result)
    with h(1,2,3) show ?thesis by blast
  qed
  from run[of s] show "\<exists>m s'. reconstruct_sketch k sd s = (Inr (Some m), s')
           \<and> fst ` set m = fst ` set (profiles sd)
           \<and> (\<forall>(pid, d)\<in>set (profiles sd).
                 map_of m pid
                   = Some (fst (find_profile (sketch_profiles_of k (calls s')) pid d s')))"
    by blast
  show "\<forall>ents t table n. ents (timeline_entity t) = Some (Sketch n sd) \<longrightarrow>
          (\<exists>m s' table'.
             reconstruct_sketch k sd (print_line (Reconstructing n) s) = (Inr (Some m), s')
             \<and> reconstruct_entry k ents t table s = (Inr table', s')
             \<and> map_of table' = map_of table ++ map_of m
             \<and> fst ` set table' = fst ` set table \<union> fst ` set (profiles sd)
             \<and> (\<forall>pid. map_of m pid = Some None \<longrightarrow> map_of table' pid = Some None))"
  proof (intro allI impI)
    fix ents :: "uuid \<rightharpoonup> entity" and t :: timeline_object and table :: profile_table and n
    assume e: "ents (timeline_entity t) = Some (Sketch n sd)"
    from run[of "print_line (Reconstructing n) s"] obtain m s' where
      h: "reconstruct_sketch k sd (print_line (Reconstructing n) s) = (Inr (Some m), s')"
         "fst ` set m = fst ` set (profiles sd)" "distinct (map fst m)" by blast
    let ?t = "dict_update table m"
    have r: "reconstruct_entry k ents t table s = (Inr ?t, s')"
      using e h(1) by (rule reconstruct_entry_sketch)
    have c: "map_of ?t = map_of table ++ map_of m"
      using h(3) by (rule dict_update_conv)
    have d: "fst ` set ?t = fst ` set table \<union> fst ` set (profiles sd)"
      using h(2) by (simp add: dict_update_keys)
    have v: "\<forall>pid. map_of m pid = Some None \<longrightarrow> map_of ?t pid = Some None"
      unfolding c by (simp add: map_add_Some_iff del: map_of_eq_Some_iff)
    from h(1) r c d v
    show "\<exists>m s' table'.
             reconstruct_sketch k sd (print_line (Reconstructing n) s) = (Inr (Some m), s')
             \<and> reconstruct_entry k ents t table s = (Inr table', s')
             \<and> map_of table' = map_of table ++ map_of m
             \<and> fst ` set table' = fst ` set table \<union> fst ` set (profiles sd)
             \<and> (\<forall>pid. map_of m pid = Some None \<longrightarrow> map_of table' pid = Some None)"
      by blast
  qed
qed

theorem sketch_profile_mapping_keys_witness:
  "curves sample_sketch = Some sample_curves
   \<and> points_present (points sample_sketch) sample_curves
   \<and> distinct (map fst (profiles sample_sketch))
   \<and> fst (reconstruct_sketch (fixed_kernel [square_exact]) sample_sketch start_state)
       = Inr (Some [(''p1'', Some square_exact), (''p2'', None)])
   \<and> fst (reconstruct_entry (fixed_kernel [square_exact]) sample_entities (entry ''s1'')
            [(''p0'', None)] start_state)
       = Inr [(''p0'', None), (''p1'', Some square_exact), (''p2'', None)]"
proof -
  have h1: "curves sample_sketch = Some sample_curves"
    by (simp add: sketch_example_defs)
  have h2: "points_present (points sample_sketch) sample_curves"
    by (simp add: points_present_def materialized_def sketch_example_defs)
  have h3: "distinct (map fst (profiles sample_sketch))"
    by (simp add: sketch_example_defs)
  have e1: "fst (reconstruct_sketch (fixed_kernel [square_exact]) sample_sketch start_state)
       = Inr (Some [(''p1'', Some square_exact), (''p2'', None)])"
    by (simp add: sketch_example_defs sketch_defs matcher_defs example_defs)
  have e2: "fst (reconstruct_entry (fixed_kernel [square_exact]) sample_entities (entry ''s1'')
            [(''p0'', None)] start_state)
       = Inr [(''p0'', None), (''p1'', Some square_exact), (''p2'', None)]"
    by (simp add: sketch_example_defs sketch_defs matcher_defs example_defs reconstruct_entry_def)
  from sketch_profile_mapping_keys[OF h1 h2 h3, of "fixed_kernel [square_exact]" start_state]
    h1 h2 h3 e1 e2
  show ?thesis by blast
qed

section \<open>Properties of the timeline driver\<close>

lemma entity_lines_append: "entity_lines (xs @ ys) = entity_lines xs @ entity_lines ys"
  by (induction xs rule: entity_lines.induct) simp_all

lemma sketch_curve_lines:
  "entity_lines (printed (snd (reconstruct_sketch_curve u c pts s))) = entity_lines (printed s)"
  by (cases "curve_type c")
     (simp_all add: reconstruct_sketch_curve_def reconstruct_sketch_line_def
        reconstruct_sketch_arc_def reconstruct_sketch_circle_def invoke_def Let_def
        print_line_def entity_lines_append split: option.splits)

lemma sketch_curves_lines:
  "entity_lines (printed (snd (reconstruct_sketch_curves cs pts s))) = entity_lines (printed s)"
proof (induction cs arbitrary: s)
  case Nil
  then show ?case by simp
next
  case (Cons x cs)
  obtain u c where x: "x = (u, c)" by (cases x)
  obtain r s1 where step: "reconstruct_sketch_curve u c pts s = (r, s1)"
    by (cases "reconstruct_sketch_curve u c pts s")
  from sketch_curve_lines[of u c pts s] step
  have s1: "entity_lines (printed s1) = entity_lines (printed s)" by simp
  show ?case
  proof (cases r)
    case (Inl e)
    with x step s1 show ?thesis by simp
  next
    case (Inr v)
    with x step s1 Cons.IH[of s1] show ?thesis by simp
  qed
qed

lemma find_profile_lines:
  "entity_lines (printed (snd (find_profile candidates pid d s))) = entity_lines (printed s)"
  by (simp add: find_profile_def Let_def print_line_def entity_lines_append split: option.splits)

lemma find_profiles_lines:
  "entity_lines (printed (snd (find_profiles k ps m s))) = entity_lines (printed s)"
proof (induction ps arbitrary: m s)
  case Nil
  then show ?case by simp
next
  case (Cons x ps)
  obtain pid d where x: "x = (pid, d)" by (cases x)
  obtain r s1 where f: "find_profile (sketch_profiles_of k (calls s)) pid d s = (r, s1)"
    by (cases "find_profile (sketch_profiles_of k (calls s)) pid d s")
  from find_profile_lines[of "sketch_profiles_of k (calls s)" pid d s] f
  have s1: "entity_lines (printed s1) = entity_lines (printed s)" by simp
  from x f have step: "find_profiles k (x # ps) m s = find_profiles k ps (AList.update pid r m) s1"
    by simp
  show ?case by (simp only: step Cons.IH s1)
qed

lemma reconstruct_sketch_lines:
  "entity_lines (printed (snd (reconstruct_sketch k sd s))) = entity_lines (printed s)"
proof (cases "curves sd")
  case None
  then show ?thesis by (simp add: reconstruct_sketch_def)
next
  case (Some cs)
  let ?s2 = "invoke (SetIsComputeDeferred True)
     (print_line (Counts (length (points sd)) (length cs))
       (invoke (SetTransform (transform sd)) (invoke AddWithoutEdges s)))"
  have s2: "entity_lines (printed ?s2) = entity_lines (printed s)"
    by (simp add: invoke_def print_line_def entity_lines_append)
  obtain r s3 where c: "reconstruct_sketch_curves cs (points sd) ?s2 = (r, s3)"
    by (cases "reconstruct_sketch_curves cs (points sd) ?s2")
  from sketch_curves_lines[of cs "points sd" ?s2] c s2
  have s3: "entity_lines (printed s3) = entity_lines (printed s)" by simp
  show ?thesis
  proof (cases r)
    case (Inl e)
    with Some c s3 show ?thesis
      by (simp add: reconstruct_sketch_def reconstruct_curves_def Let_def)
  next
    case (Inr v)
    let ?s4 = "invoke (SetIsComputeDeferred False) s3"
    obtain m s5 where f: "find_profiles k (profiles sd) [] ?s4 = (m, s5)"
      by (cases "find_profiles k (profiles sd) [] ?s4")
    from find_profiles_lines[of k "profiles sd" "[]" ?s4] f s3
    have "entity_lines (printed s5) = entity_lines (printed s)" by (simp add: invoke_def)
    with Some c Inr f show ?thesis
      by (simp add: reconstruct_sketch_def reconstruct_curves_def Let_def)
  qed
qed

lemma reconstruct_extrude_printed:
  "printed (snd (reconstruct_extrude_feature k ed table s)) = printed s"
proof -
  obtain r1 s1 where a: "add_profiles k (extrude_profiles ed) table [] s = (r1, s1)"
    by (cases "add_profiles k (extrude_profiles ed) table [] s")
  from add_profiles_effect[OF a] have p1: "printed s1 = printed s" by blast
  show ?thesis
  proof (cases r1)
    case (Inl e)
    with a p1 show ?thesis by (simp add: reconstruct_extrude_feature_def)
  next
    case (Inr collection)
    let ?s1 = "invoke (CreateInput collection (operation ed)) s1"
    obtain r2 s2 where x: "set_extent ed ?s1 = (r2, s2)" by (cases "set_extent ed ?s1")
    from set_extent_effect[of ed ?s1] x p1 have p2: "printed s2 = printed s"
      by (simp add: invoke_def)
    from set_start_extent_effect[of "start_extent ed" s2] p2
    have "printed (invoke AddExtrude (set_start_extent (start_extent ed) s2)) = printed s"
      by (simp add: invoke_def)
    with a Inr x p2 show ?thesis
      by (cases r2) (simp_all add: reconstruct_extrude_feature_def)
  qed
qed

lemma reconstruct_entry_lines:
  assumes "reconstruct_entry k ents t table s = (Inr table', s')"
  shows "\<exists>n. map_option entity_name (ents (timeline_entity t)) = Some n
     \<and> entity_lines (printed s') = entity_lines (printed s) @ [n]"
proof (cases "ents (timeline_entity t)")
  case None
  with assms show ?thesis by (simp add: reconstruct_entry_def)
next
  case (Some ent)
  let ?s1 = "print_line (Reconstructing (entity_name ent)) s"
  have s1: "entity_lines (printed ?s1) = entity_lines (printed s) @ [entity_name ent]"
    by (simp add: print_line_def entity_lines_append)
  have "entity_lines (printed s') = entity_lines (printed ?s1)"
  proof (cases ent)
    case (Sketch n sd)
    obtain r s2 where rs: "reconstruct_sketch k sd ?s1 = (r, s2)"
      by (cases "reconstruct_sketch k sd ?s1")
    with assms Some Sketch have "s' = s2"
      by (cases r) (auto simp: reconstruct_entry_def split: option.splits if_splits)
    with reconstruct_sketch_lines[of k sd ?s1] rs show ?thesis by simp
  next
    case (ExtrudeFeature n ed)
    obtain r s2 where rs: "reconstruct_extrude_feature k ed table ?s1 = (r, s2)"
      by (cases "reconstruct_extrude_feature k ed table ?s1")
    with assms Some ExtrudeFeature have "s' = s2"
      by (cases r) (auto simp: reconstruct_entry_def)
    with reconstruct_extrude_printed[of k ed table ?s1] rs show ?thesis by simp
  next
    case (OtherEntity n ty)
    with assms Some show ?thesis by (auto simp: reconstruct_entry_def)
  qed
  with s1 Some show ?thesis by simp
qed

lemma reconstruct_timeline_lines:
  "reconstruct_timeline k ents ts table s = (Inr table', s') \<Longrightarrow>
     \<exists>names. map (\<lambda>t. map_option entity_name (ents (timeline_entity t))) ts = map Some names
       \<and> entity_lines (printed s') = entity_lines (printed s) @ names"
proof (induction ts arbitrary: table s)
  case Nil
  then have "map (\<lambda>t. map_option entity_name (ents (timeline_entity t))) [] = map Some []
       \<and> entity_lines (printed s') = entity_lines (printed s) @ []" by simp
  then show ?case by blast
next
  case (Cons t ts)
  obtain r s1 where step: "reconstruct_entry k ents t table s = (r, s1)"
    by (cases "reconstruct_entry k ents t table s")
  with Cons.prems obtain table1 where r: "r = Inr table1"
    by (cases r) auto
  with Cons.prems step have rest: "reconstruct_timeline k ents ts table1 s1 = (Inr table', s')"
    by simp
  from reconstruct_entry_lines[OF step[unfolded r]] obtain n where
    n: "map_option entity_name (ents (timeline_entity t)) = Some n"
       "entity_lines (printed s1) = entity_lines (printed s) @ [n]" by blast
  from Cons.IH[OF rest] obtain names where
    ns: "map (\<lambda>t. map_option entity_name (ents (timeline_entity t))) ts = map Some names"
        "entity_lines (printed s') = entity_lines (printed s1) @ names" by blast
  from n ns have "map (\<lambda>t. map_option entity_name (ents (timeline_entity t))) (t # ts)
        = map Some (n # names)
      \<and> entity_lines (printed s') = entity_lines (printed s) @ (n # names)" by simp
  then show ?case by blast
qed

lemma reconstruct_timeline_append:
  "reconstruct_timeline k ents (ts1 @ ts2) table s =
     (case reconstruct_timeline k ents ts1 table s of
        (Inl e, s') \<Rightarrow> (Inl e, s')
      | (Inr table', s') \<Rightarrow> reconstruct_timeline k ents ts2 table' s')"
proof (induction ts1 arbitrary: table s)
  case Nil
  then show ?case by simp
next
  case (Cons t ts1)
  obtain r s1 where step: "reconstruct_entry k ents t table s = (r, s1)"
    by (cases "reconstruct_entry k ents t table s")
  show ?case
  proof (cases r)
    case (Inl e)
    with step show ?thesis by simp
  next
    case (Inr table1)
    with step Cons.IH[of table1 s1] show ?thesis by simp
  qed
qed

lemmas two_sketch_defs = disc_props_def disc_record_def disc_profile_def disc_sketch_def
  two_profile_extrude_def two_sketch_kernel_def two_sketch_entities_def two_sketch_design_def

lemma reconstruct_sketch_distinct:
  assumes "reconstruct_sketch k sd s = (Inr (Some m), s')"
  shows "distinct (map fst m)"
proof -
  from assms obtain s4 where "find_profiles k (profiles sd) [] s4 = (m, s')"
    by (auto simp: reconstruct_sketch_def reconstruct_curves_def Let_def
        split: option.splits prod.splits sum.splits)
  from find_profiles_start[OF this] show ?thesis by (simp del: map_of_eq_Some_iff)
qed

lemma reconstruct_entry_keys:
  assumes "reconstruct_entry k ents t table s = (Inr table', s')"
  shows "fst ` set table \<subseteq> fst ` set table'"
proof -
  from assms have "table' = table \<or> (\<exists>m. table' = dict_update table m)"
    by (auto simp: reconstruct_entry_def Let_def
        split: option.splits entity.splits prod.splits sum.splits if_splits)
  then show ?thesis
  proof
    assume "table' = table"
    then show ?thesis by simp
  next
    assume "\<exists>m. table' = dict_update table m"
    then obtain m where "table' = dict_update table m" by blast
    then have "fst ` set table' = fst ` set table \<union> fst ` set m" by (simp add: dict_update_keys)
    then show ?thesis by blast
  qed
qed

lemma reconstruct_timeline_keys:
  "reconstruct_timeline k ents ts table s = (Inr table', s') \<Longrightarrow>
     fst ` set table \<subseteq> fst ` set table'"
proof (induction ts arbitrary: table s)
  case Nil
  then show ?case by simp
next
  case (Cons t ts)
  obtain r s1 where step: "reconstruct_entry k ents t table s = (r, s1)"
    by (cases "reconstruct_entry k ents t table s")
  with Cons.prems obtain table1 where r: "r = Inr table1"
    by (cases r) auto
  with Cons.prems step have rest: "reconstruct_timeline k ents ts table1 s1 = (Inr table', s')"
    by simp
  from reconstruct_entry_keys[OF step[unfolded r]] Cons.IH[OF rest] show ?case by blast
qed

text \<open>
  Claim C9 states that an entity whose type is neither \<^verbatim>\<open>Sketch\<close> nor
  \<^verbatim>\<open>ExtrudeFeature\<close> is ignored without effect. The loop prints the name of every
  entity before it looks at the type, and the printed lines are part of what a run does:
  the entry of a fillet feature leaves a state that differs from the one it started in.
\<close>

theorem other_entity_effect_counterexample:
  "sample_entities (timeline_entity (entry ''x1'')) = Some (OtherEntity ''Fillet1'' ''FilletFeature'')
   \<and> snd (reconstruct_entry (fixed_kernel [square_exact]) sample_entities (entry ''x1'') []
        start_state)
     = \<lparr>calls = [], printed = [Reconstructing ''Fillet1'']\<rparr>
   \<and> snd (reconstruct_entry (fixed_kernel [square_exact]) sample_entities (entry ''x1'') []
        start_state) \<noteq> start_state"
  by (simp add: reconstruct_entry_def sketch_example_defs print_line_def start_state_def)

text \<open>
  Claim C9, amended. \<^verbatim>\<open>reconstruct\<close> starts from the empty table and processes the
  timeline from its first entry to its last: running \<open>ts1 @ ts2\<close> is running \<open>ts1\<close> and
  then, unless that raised, \<open>ts2\<close> on the table and state it left; in a run that succeeds
  the names printed are those of the timeline's entities in timeline order, and no key of
  the table is lost. Each entry's entity is looked up by identifier (\<open>KeyError\<close> when
  absent) and dispatched on its type. A sketch that raises stops the run, a sketch without
  curves leaves the table as it is, and the mapping \<open>m\<close> returned by any other sketch is
  merged into the running table: the table afterwards maps every key of \<open>m\<close> to its value
  in \<open>m\<close> and every other key to what the table held before. An extrude is
  reconstructed against the running table and leaves it as it is. An entity of another
  type has its name printed, as every entity has, and is otherwise ignored: no kernel call
  and no change of the table.
\<close>

theorem timeline_processed_in_order:
  "reconstruct k data s = reconstruct_timeline k (entities data) (timeline data) [] s
   \<and> reconstruct_timeline k ents (ts1 @ ts2) table s =
       (case reconstruct_timeline k ents ts1 table s of
          (Inl e, s1) \<Rightarrow> (Inl e, s1)
        | (Inr table1, s1) \<Rightarrow> reconstruct_timeline k ents ts2 table1 s1)
   \<and> (reconstruct_timeline k ents ts table s = (Inr table', s')
        \<longrightarrow> map (\<lambda>t. map_option entity_name (ents (timeline_entity t))) ts
            = map Some (drop (length (entity_lines (printed s))) (entity_lines (printed s')))
          \<and> fst ` set table \<subseteq> fst ` set table')
   \<and> (ents (timeline_entity t) = None
        \<longrightarrow> reconstruct_entry k ents t table s = (Inl (KeyError (timeline_entity t)), s))
   \<and> (\<forall>n sd. ents (timeline_entity t) = Some (Sketch n sd)
        \<longrightarrow> (\<forall>e s1. reconstruct_sketch k sd (print_line (Reconstructing n) s) = (Inl e, s1)
                \<longrightarrow> reconstruct_entry k ents t table s = (Inl e, s1))
          \<and> (\<forall>s1. reconstruct_sketch k sd (print_line (Reconstructing n) s) = (Inr None, s1)
                \<longrightarrow> reconstruct_entry k ents t table s = (Inr table, s1))
          \<and> (\<forall>m s1. reconstruct_sketch k sd (print_line (Reconstructing n) s) = (Inr (Some m), s1)
                \<longrightarrow> (\<exists>table1. reconstruct_entry k ents t table s = (Inr table1, s1)
                       \<and> map_of table1 = map_of table ++ map_of m
                       \<and> fst ` set table1 = fst ` set table \<union> fst ` set m)))
   \<and> (\<forall>n ed. ents (timeline_entity t) = Some (ExtrudeFeature n ed)
        \<longrightarrow> reconstruct_entry k ents t table s =
              (case reconstruct_extrude_feature k ed table (print_line (Reconstructing n) s) of
                 (Inl e, s1) \<Rightarrow> (Inl e, s1)
               | (Inr u, s1) \<Rightarrow> (Inr table, s1)))
   \<and> (\<forall>n ty. ents (timeline_entity t) = Some (OtherEntity n ty)
        \<longrightarrow> reconstruct_entry k ents t table s = (Inr table, print_line (Reconstructing n) s)
          \<and> calls (snd (reconstruct_entry k ents t table s)) = calls s)"
proof -
  have order: "map (\<lambda>t. map_option entity_name (ents (timeline_entity t))) ts
            = map Some (drop (length (entity_lines (printed s))) (entity_lines (printed s')))
          \<and> fst ` set table \<subseteq> fst ` set table'"
    if run: "reconstruct_timeline k ents ts table s = (Inr table', s')"
  proof -
    from reconstruct_timeline_lines[OF run] obtain names where
      "map (\<lambda>t. map_option entity_name (ents (timeline_entity t))) ts = map Some names"
      "entity_lines (printed s') = entity_lines (printed s) @ names" by blast
    then have "map (\<lambda>t. map_option entity_name (ents (timeline_entity t))) ts
            = map Some (drop (length (entity_lines (printed s))) (entity_lines (printed s')))"
      by simp
    with reconstruct_timeline_keys[OF run] show ?thesis by simp
  qed
  have missing: "reconstruct_entry k ents t table s = (Inl (KeyError (timeline_entity t)), s)"
    if "ents (timeline_entity t) = None"
    using that by (simp add: reconstruct_entry_def)
  have sketch_error: "reconstruct_entry k ents t table s = (Inl e, s1)"
    if "ents (timeline_entity t) = Some (Sketch n sd)"
      "reconstruct_sketch k sd (print_line (Reconstructing n) s) = (Inl e, s1)" for n sd e s1
    using that by (simp add: reconstruct_entry_def)
  have sketch_none: "reconstruct_entry k ents t table s = (Inr table, s1)"
    if "ents (timeline_entity t) = Some (Sketch n sd)"
      "reconstruct_sketch k sd (print_line (Reconstructing n) s) = (Inr None, s1)" for n sd s1
    using that by (simp add: reconstruct_entry_def)
  have sketch_some: "\<exists>table1. reconstruct_entry k ents t table s = (Inr table1, s1)
                       \<and> map_of table1 = map_of table ++ map_of m
                       \<and> fst ` set table1 = fst ` set table \<union> fst ` set m"
    if e: "ents (timeline_entity t) = Some (Sketch n sd)"
      and r: "reconstruct_sketch k sd (print_line (Reconstructing n) s) = (Inr (Some m), s1)"
    for n sd m s1
  proof -
    have a: "reconstruct_entry k ents t table s = (Inr (dict_update table m), s1)"
      using e r by (rule reconstruct_entry_sketch)
    from r have "distinct (map fst m)" by (rule reconstruct_sketch_distinct)
    then have b: "map_of (dict_update table m) = map_of table ++ map_of m"
      by (rule dict_update_conv)
    have c: "fst ` set (dict_update table m) = fst ` set table \<union> fst ` set m"
      by (rule dict_update_keys)
    from a b c show ?thesis by blast
  qed
  have extrude: "reconstruct_entry k ents t table s =
              (case reconstruct_extrude_feature k ed table (print_line (Reconstructing n) s) of
                 (Inl e, s1) \<Rightarrow> (Inl e, s1)
               | (Inr u, s1) \<Rightarrow> (Inr table, s1))"
    if "ents (timeline_entity t) = Some (ExtrudeFeature n ed)" for n ed
    using that by (simp add: reconstruct_entry_def)
  have other: "reconstruct_entry k ents t table s = (Inr table, print_line (Reconstructing n) s)
          \<and> calls (snd (reconstruct_entry k ents t table s)) = calls s"
    if "ents (timeline_entity t) = Some (OtherEntity n ty)" for n ty
    using that by (simp add: reconstruct_entry_def print_line_def)
  have start: "reconstruct k data s
      = reconstruct_timeline k (entities data) (timeline data) [] s"
    by (simp add: reconstruct_def)
  note app = reconstruct_timeline_append[of k ents ts1 ts2 table s]
  have sk: "\<forall>n sd. ents (timeline_entity t) = Some (Sketch n sd)
        \<longrightarrow> (\<forall>e s1. reconstruct_sketch k sd (print_line (Reconstructing n) s) = (Inl e, s1)
                \<longrightarrow> reconstruct_entry k ents t table s = (Inl e, s1))
          \<and> (\<forall>s1. reconstruct_sketch k sd (print_line (Reconstructing n) s) = (Inr None, s1)
                \<longrightarrow> reconstruct_entry k ents t table s = (Inr table, s1))
          \<and> (\<forall>m s1. reconstruct_sketch k sd (print_line (Reconstructing n) s) = (Inr (Some m), s1)
                \<longrightarrow> (\<exists>table1. reconstruct_entry k ents t table s = (Inr table1, s1)
                       \<and> map_of table1 = map_of table ++ map_of m
                       \<and> fst ` set table1 = fst ` set table \<union> fst ` set m))"
    using sketch_error sketch_none sketch_some by blast
  have ex: "\<forall>n ed. ents (timeline_entity t) = Some (ExtrudeFeature n ed)
        \<longrightarrow> reconstruct_entry k ents t table s =
              (case reconstruct_extrude_feature k ed table (print_line (Reconstructing n) s) of
                 (Inl e, s1) \<Rightarrow> (Inl e, s1)
               | (Inr u, s1) \<Rightarrow> (Inr table, s1))"
    using extrude by blast
  have ot: "\<forall>n ty. ents (timeline_entity t) = Some (OtherEntity n ty)
        \<longrightarrow> reconstruct_entry k ents t table s = (Inr table, print_line (Reconstructing n) s)
          \<and> calls (snd (reconstruct_entry k ents t table s)) = calls s"
    using other by blast
  from start app order missing sk ex ot show ?thesis by (intro conjI impI) blast+
qed

theorem timeline_processed_in_order_witness:
  "reconstruct two_sketch_kernel two_sketch_design start_state
     = (Inr [(''p1'', Some square_exact), (''p2'', None), (''q1'', Some disc_profile)],
        \<lparr>calls = [AddWithoutEdges, SetTransform [], SetIsComputeDeferred True,
                  AddByTwoPoints origin unit_x, SetCustomUuid ''L1'',
                  AddByCenterRadius origin 2, SetCustomUuid ''C1'',
                  AddByCenterStartSweep origin unit_x 2, SetCustomUuid ''A1'',
                  SetIsComputeDeferred False,
                  AddWithoutEdges, SetTransform [], SetIsComputeDeferred True,
                  AddByCenterRadius origin 2, SetCustomUuid ''D1'',
                  SetIsComputeDeferred False,
                  CollectionAdd (Some square_exact), CollectionAdd (Some disc_profile),
                  CreateInput [Some square_exact, Some disc_profile] ''NewBodyFeatureOperation'',
                  SetOneSideExtent 3 0, SetStartExtent 2, AddExtrude],
          printed = [Reconstructing ''Sketch1'', Counts 2 5,
                    UnsupportedCurveType ''SketchEllipse'', ProfileNotFound ''p2'' [''c9''],
                    Reconstructing ''Fillet1'', Reconstructing ''Sketch2'', Counts 2 1,
                    Reconstructing ''Extrude2'']\<rparr>)
   \<and> two_sketch_entities (timeline_entity (entry ''s2'')) = Some (Sketch ''Sketch2'' disc_sketch)
   \<and> fst (reconstruct_sketch two_sketch_kernel disc_sketch
        (print_line (Reconstructing ''Sketch2'')
          \<lparr>calls = [AddWithoutEdges], printed = []\<rparr>))
     = Inr (Some [(''q1'', Some disc_profile)])
   \<and> fst (reconstruct_entry two_sketch_kernel two_sketch_entities (entry ''s2'')
        [(''p1'', Some square_exact), (''p2'', None)] \<lparr>calls = [AddWithoutEdges], printed = []\<rparr>)
     = Inr [(''p1'', Some square_exact), (''p2'', None), (''q1'', Some disc_profile)]
   \<and> reconstruct_timeline two_sketch_kernel two_sketch_entities
        [entry ''s2'', entry ''e2'', entry ''s1''] [] start_state
     = (Inl (KeyError ''p1''),
        \<lparr>calls = [AddWithoutEdges, SetTransform [], SetIsComputeDeferred True,
                  AddByCenterRadius origin 2, SetCustomUuid ''D1'',
                  SetIsComputeDeferred False],
          printed = [Reconstructing ''Sketch2'', Counts 2 1, ProfileNotFound ''q1'' [''D1''],
                    Reconstructing ''Extrude2'']\<rparr>)
   \<and> reconstruct_entry two_sketch_kernel two_sketch_entities (entry ''x1'')
        [(''p0'', None)] start_state
     = (Inr [(''p0'', None)], \<lparr>calls = [], printed = [Reconstructing ''Fillet1'']\<rparr>)
   \<and> reconstruct_entry two_sketch_kernel two_sketch_entities (entry ''zz'')
        [] start_state
     = (Inl (KeyError ''zz''), start_state)"
proof -
  note defs = reconstruct_def reconstruct_entry_def two_sketch_defs sketch_example_defs
    sketch_defs matcher_defs example_defs extrude_example_defs extrude_defs
  have e1: "reconstruct two_sketch_kernel two_sketch_design start_state
     = (Inr [(''p1'', Some square_exact), (''p2'', None), (''q1'', Some disc_profile)],
        \<lparr>calls = [AddWithoutEdges, SetTransform [], SetIsComputeDeferred True,
                  AddByTwoPoints origin unit_x, SetCustomUuid ''L1'',
                  AddByCenterRadius origin 2, SetCustomUuid ''C1'',
                  AddByCenterStartSweep origin unit_x 2, SetCustomUuid ''A1'',
                  SetIsComputeDeferred False,
                  AddWithoutEdges, SetTransform [], SetIsComputeDeferred True,
                  AddByCenterRadius origin 2, SetCustomUuid ''D1'',
                  SetIsComputeDeferred False,
                  CollectionAdd (Some square_exact), CollectionAdd (Some disc_profile),
                  CreateInput [Some square_exact, Some disc_profile] ''NewBodyFeatureOperation'',
                  SetOneSideExtent 3 0, SetStartExtent 2, AddExtrude],
          printed = [Reconstructing ''Sketch1'', Counts 2 5,
                    UnsupportedCurveType ''SketchEllipse'', ProfileNotFound ''p2'' [''c9''],
                    Reconstructing ''Fillet1'', Reconstructing ''Sketch2'', Counts 2 1,
                    Reconstructing ''Extrude2'']\<rparr>)"
    by (simp add: defs)
  have e2: "two_sketch_entities (timeline_entity (entry ''s2'')) = Some (Sketch ''Sketch2'' disc_sketch)"
    by (simp add: two_sketch_entities_def entry_def)
  have e3: "fst (reconstruct_sketch two_sketch_kernel disc_sketch
        (print_line (Reconstructing ''Sketch2'')
          \<lparr>calls = [AddWithoutEdges], printed = []\<rparr>))
     = Inr (Some [(''q1'', Some disc_profile)])"
    by (simp add: defs)
  have e4: "fst (reconstruct_entry two_sketch_kernel two_sketch_entities (entry ''s2'')
        [(''p1'', Some square_exact), (''p2'', None)] \<lparr>calls = [AddWithoutEdges], printed = []\<rparr>)
     = Inr [(''p1'', Some square_exact), (''p2'', None), (''q1'', Some disc_profile)]"
    by (simp add: defs)
  have e5: "reconstruct_timeline two_sketch_kernel two_sketch_entities
        [entry ''s2'', entry ''e2'', entry ''s1''] [] start_state
     = (Inl (KeyError ''p1''),
        \<lparr>calls = [AddWithoutEdges, SetTransform [], SetIsComputeDeferred True,
                  AddByCenterRadius origin 2, SetCustomUuid ''D1'',
                  SetIsComputeDeferred False],
          printed = [Reconstructing ''Sketch2'', Counts 2 1, ProfileNotFound ''q1'' [''D1''],
                    Reconstructing ''Extrude2'']\<rparr>)"
    by (simp add: defs)
  have e6: "reconstruct_entry two_sketch_kernel two_sketch_entities (entry ''x1'')
        [(''p0'', None)] start_state
     = (Inr [(''p0'', None)], \<lparr>calls = [], printed = [Reconstructing ''Fillet1'']\<rparr>)"
    by (simp add: defs)
  have e7: "reconstruct_entry two_sketch_kernel two_sketch_entities (entry ''zz'')
        [] start_state
     = (Inl (KeyError ''zz''), start_state)"
    by (simp add: defs)
  from timeline_processed_in_order [where k = two_sketch_kernel
      and data = two_sketch_design and s = "\<lparr>calls = [AddWithoutEdges], printed = []\<rparr>"
      and ents = two_sketch_entities and t = "entry ''s2''"
      and table = "[(''p1'', Some square_exact), (''p2'', None)]"]
    e1 e2 e3 e4 e5 e6 e7
  show ?thesis by blast
qed

end
